theory Spec2Isabelle
  imports Main "HOL-Library.Word"
begin

section \<open>The edge web server: \<open>packages/next/src/server/web-server.ts\<close>\<close>

text \<open>
  A shallow embedding of the methods of \<open>NextWebServer\<close>. JavaScript objects are records,
  \<open>undefined\<close> is \<open>None\<close>, a thrown error is the left summand of a sum type, and the
  helpers the class imports from other modules are parameters of the model (the record
  \<open>deps\<close> below), so that what the class does with their results holds for whatever
  they compute. Where a property rests on what a helper computes, the helper is the one
  modelled from the specification further down.
\<close>

subsection \<open>Values, truthiness and errors\<close>

text \<open>
  \<open>new Error(msg)\<close> and the \<open>NoFallbackError\<close> class imported from \<open>./base-server\<close>;
  \<open>err instanceof NoFallbackError\<close> is the test \<open>err = NoFallbackError\<close>.
\<close>

datatype error = Error string | NoFallbackError

text \<open>A value of a parsed query: \<open>string | string[]\<close>; an absent key is \<open>undefined\<close>.\<close>

datatype qval = QStr string | QArr "string list"

type_synonym query = "string \<rightharpoonup> qval"

text \<open>
  JavaScript truthiness, as \<open>!x\<close>, \<open>!!x\<close>, \<open>x ? a : b\<close> and \<open>if (x)\<close> use it:
  \<open>undefined\<close> and the empty string are falsy, every array and every object is truthy.
\<close>

fun truthy_str :: "string option \<Rightarrow> bool" where
  "truthy_str None = False"
| "truthy_str (Some s) = (s \<noteq> [])"

fun truthy_qval :: "qval option \<Rightarrow> bool" where
  "truthy_qval None = False"
| "truthy_qval (Some (QStr s)) = (s \<noteq> [])"
| "truthy_qval (Some (QArr xs)) = True"

fun truthy_bool :: "bool option \<Rightarrow> bool" where
  "truthy_bool None = False"
| "truthy_bool (Some b) = b"

subsection \<open>Render options and the object store\<close>

text \<open>
  \<open>RenderOpts\<close> is declared in \<open>./render\<close>; the fields the class reads or writes are
  named, every other field lives in the record's extension \<open>more\<close>.
\<close>

record RenderOpts =
  dev :: "bool option"
  buildId :: string
  disableOptimizedLoading :: "bool option"
  runtime :: "string option"

text \<open>
  Objects are shared by reference. A store maps a reference to the object it denotes;
  passing an object is passing its reference, mutating it is updating the store.
\<close>

type_synonym ref = nat

type_synonym 'a store = "ref \<Rightarrow> 'a RenderOpts_scheme"

text \<open>
  \<open>Object.assign(renderOpts, {disableOptimizedLoading: true, runtime: 'experimental-edge'})\<close>:
  writes the two fields into the target object and returns the target itself.
\<close>

definition Object_assign_overlay :: "ref \<Rightarrow> 'a store \<Rightarrow> ref \<times> 'a store" where
  "Object_assign_overlay target h =
     (target,
      h(target := (h target)\<lparr>disableOptimizedLoading := Some True,
                            runtime := Some ''experimental-edge''\<rparr>))"

subsection \<open>The prerender manifest\<close>

text \<open>Modelled from the spec: the type \<open>PrerenderManifest\<close> (declared in \<open>../build\<close>, not
  part of the source at hand), with the fields the specification lists and the literal of
  \<open>getPrerenderManifest\<close> fills in: a version, two route tables, the not-found routes and
  the preview settings with their mode id. \<open>'m\<close> is the metadata of a route.\<close>

record preview =
  previewModeId :: string

record 'm PrerenderManifest =
  version :: int
  routes :: "string \<rightharpoonup> 'm"
  dynamicRoutes :: "string \<rightharpoonup> 'm"
  notFoundRoutes :: "string list"
  preview :: preview

text \<open>
  \<open>getPrerenderManifest\<close> (lines 114-128). The first argument is \<open>this.renderOpts\<close>, the
  second \<open>this.serverOptions.webServerConfig.prerenderManifest\<close>. The supplied manifest is
  returned only when \<open>dev\<close> is falsy and the manifest is not \<open>undefined\<close>; the guard
  \<open>this.renderOpts?.dev || !prerenderManifest\<close> sends every other case to the literal.
\<close>

definition getPrerenderManifest ::
  "'a RenderOpts_scheme \<Rightarrow> 'm PrerenderManifest option \<Rightarrow> 'm PrerenderManifest" where
  "getPrerenderManifest renderOpts prerenderManifest =
     (case (truthy_bool (dev renderOpts), prerenderManifest) of
        (False, Some m) \<Rightarrow> m
      | _ \<Rightarrow>
          \<lparr>version = -1, routes = Map.empty, dynamicRoutes = Map.empty,
           notFoundRoutes = [], preview = \<lparr>previewModeId = ''development-id''\<rparr>\<rparr>)"

subsection \<open>\<open>renderHTML\<close>\<close>

text \<open>
  \<open>renderHTML\<close> (lines 196-225). \<open>renderToHTML\<close> is the injected rendering function of
  \<open>webServerConfig\<close>, \<open>None\<close> when it is \<open>undefined\<close>. It receives the request, the
  response, the pathname, the query and the reference of the render options, runs on the
  store as the overlay left it, and returns its result with the store as it leaves it.
  When the function throws before the overlay, the store is returned untouched.
\<close>

definition renderHTML ::
  "('req \<Rightarrow> 'res \<Rightarrow> string \<Rightarrow> query \<Rightarrow> ref \<Rightarrow> 'a store \<Rightarrow> 'r \<times> 'a store) option \<Rightarrow>
   'req \<Rightarrow> 'res \<Rightarrow> string \<Rightarrow> query \<Rightarrow> ref \<Rightarrow> 'a store \<Rightarrow> (error + 'r) \<times> 'a store" where
  "renderHTML renderToHTML req res pathname query renderOpts h =
     (case renderToHTML of
        None \<Rightarrow>
          (Inl (Error ''Invariant: routeModule should be configured when rendering pages''), h)
      | Some f \<Rightarrow>
          let pathname' =
                (if pathname = (if truthy_bool (dev (h renderOpts)) then ''/not-found''
                                else ''/_not-found'')
                 then ''/404'' else pathname);
              (target, h') = Object_assign_overlay renderOpts h;
              (result, h'') = f req res pathname' query target h'
          in (Inr result, h''))"

text \<open>An observer for the injected function: it returns the arguments it was called with.\<close>

definition recordCall ::
  "'req \<Rightarrow> 'res \<Rightarrow> string \<Rightarrow> query \<Rightarrow> ref \<Rightarrow> 'a store \<Rightarrow> (string \<times> query \<times> ref) \<times> 'a store" where
  "recordCall req res pathname query renderOpts h = ((pathname, query, renderOpts), h)"

text \<open>
  A run of later requests: each is a call of \<open>renderHTML\<close> with its own arguments, on
  the store as the call before left it.
\<close>

fun renderHTMLs ::
  "('req \<Rightarrow> 'res \<Rightarrow> string \<Rightarrow> query \<Rightarrow> ref \<Rightarrow> 'a store \<Rightarrow> 'r \<times> 'a store) option \<Rightarrow>
   ('req \<times> 'res \<times> string \<times> query \<times> ref) list \<Rightarrow> 'a store \<Rightarrow> 'a store" where
  "renderHTMLs renderToHTML [] h = h"
| "renderHTMLs renderToHTML ((req, res, p, q, renderOpts) # calls) h =
     renderHTMLs renderToHTML calls (snd (renderHTML renderToHTML req res p q renderOpts h))"

text \<open>The two fields of the overlay are set on the object at \<open>r\<close>.\<close>

definition overlaid :: "'a store \<Rightarrow> ref \<Rightarrow> bool" where
  "overlaid h r =
     (disableOptimizedLoading (h r) = Some True \<and> runtime (h r) = Some ''experimental-edge'')"

text \<open>A rendering function that, whatever it is called with, leaves the two fields of
  the object at \<open>r\<close> set once they are.\<close>

definition keepsOverlay ::
  "('req \<Rightarrow> 'res \<Rightarrow> string \<Rightarrow> query \<Rightarrow> ref \<Rightarrow> 'a store \<Rightarrow> 'r \<times> 'a store) \<Rightarrow> ref \<Rightarrow> bool" where
  "keepsOverlay f r =
     (\<forall>req res p q r' h. overlaid h r \<longrightarrow> overlaid (snd (f req res p q r' h)) r)"

subsection \<open>\<open>handleCatchallRenderRequest\<close>\<close>

text \<open>
  \<open>NextUrlWithParsedQuery\<close>: the fields the method reads. \<open>pathname\<close> may be
  \<open>undefined\<close> or \<open>null\<close> (both \<open>None\<close>).
\<close>

record parsedUrl =
  pathname :: "string option"
  query :: query

text \<open>What \<open>i18nProvider.analyze\<close> resolves to: the pathname without its locale prefix
  and the locale it found, if any.\<close>

record LocaleAnalysisResult =
  analysedPathname :: string
  detectedLocale :: "string option"

text \<open>
  The helpers imported from other modules, as parameters: \<open>removeTrailingSlash\<close>,
  \<open>isDynamicRoute\<close>, \<open>getNamedRouteRegex\<close> (its result is of an abstract type
  \<open>'rx\<close>, with \<open>routeKeys\<close> for \<open>Object.keys(routeRegex.routeKeys)\<close>),
  \<open>interpolateDynamicPath\<close>, \<open>normalizeVercelUrl\<close> (it rewrites \<open>req.url\<close>, so it
  maps a request to a request) and \<open>isAPIRoute\<close>. Each is taken to return normally, as
  is \<open>analyze\<close> below: the method has no handler around these calls, so an error of
  theirs would leave it before \<open>render\<close> is reached.
\<close>

record ('req, 'rx) deps =
  removeTrailingSlash :: "string \<Rightarrow> string"
  isDynamicRoute :: "string \<Rightarrow> bool"
  getNamedRouteRegex :: "string \<Rightarrow> bool \<Rightarrow> 'rx"
  routeKeys :: "'rx \<Rightarrow> string list"
  interpolateDynamicPath :: "string \<Rightarrow> query \<Rightarrow> 'rx \<Rightarrow> string"
  normalizeVercelUrl :: "'req \<Rightarrow> bool \<Rightarrow> string list \<Rightarrow> bool \<Rightarrow> 'rx \<Rightarrow> 'req"
  isAPIRoute :: "string \<Rightarrow> bool"

text \<open>
  The part of the server object the method reads: \<open>serverOptions.webServerConfig.pathname\<close>
  and the optional \<open>i18nProvider\<close>, given by its \<open>analyze\<close> method.
\<close>

record server =
  configPathname :: string
  i18nProvider :: "(string \<Rightarrow> LocaleAnalysisResult) option"

text \<open>
  The local state when control reaches the \<open>try\<close> block (line 180). \<open>query\<close> and
  \<open>parsedUrl.query\<close> are one object: the destructuring in line 139 copies the reference,
  so the assignment of \<open>__nextLocale\<close> through \<open>parsedUrl.query\<close> and the \<open>delete\<close>
  through \<open>query\<close> both reach it, and \<open>atTryParsedUrl\<close> carries the same final query.
  \<open>parsedUrl.pathname\<close> is never assigned.
\<close>

record 'req atTry =
  atTryReq :: 'req
  atTryPathname :: string
  atTryQuery :: query
  atTryParsedUrl :: parsedUrl
  bubbleNoFallback :: bool

text \<open>
  Lines 146-162 of \<open>handleCatchallRenderRequest\<close>: the incoming pathname gives way to
  the page the server was built for, interpolated from the query when that page is
  dynamic; an incoming pathname equal to the page is kept as it is.
\<close>

definition resolvePage ::
  "('req, 'rx) deps \<Rightarrow> server \<Rightarrow> 'req \<Rightarrow> string \<Rightarrow> query \<Rightarrow> string \<times> 'req" where
  "resolvePage d this req pathname0 query0 =
     (let normalizedPage = configPathname this
      in if pathname0 \<noteq> normalizedPage then
           (if isDynamicRoute d normalizedPage then
              let routeRegex = getNamedRouteRegex d normalizedPage False
              in (interpolateDynamicPath d normalizedPage query0 routeRegex,
                  normalizeVercelUrl d req True (routeKeys d routeRegex) True routeRegex)
            else (normalizedPage, req))
         else (pathname0, req))"

text \<open>
  Lines 167-172: the locale step. Of the analysis only \<open>detectedLocale\<close> is read;
  \<open>if (detectedLocale)\<close> fails for \<open>undefined\<close> and for the empty string. The step
  returns the query; the local \<open>pathname\<close> is not assigned.
\<close>

definition recordLocale :: "server \<Rightarrow> string \<Rightarrow> query \<Rightarrow> query" where
  "recordLocale this pathname2 query0 =
     (case i18nProvider this of
        None \<Rightarrow> query0
      | Some analyze \<Rightarrow>
          (case detectedLocale (analyze pathname2) of
             None \<Rightarrow> query0
           | Some locale \<Rightarrow>
               if locale = [] then query0
               else query0(''__nextLocale'' \<mapsto> QStr locale)))"

text \<open>
  Lines 139-178 of \<open>handleCatchallRenderRequest\<close>: everything before the \<open>try\<close>.
  \<open>!pathname\<close> holds for \<open>undefined\<close> and for the empty string.
\<close>

definition beforeRender ::
  "('req, 'rx) deps \<Rightarrow> server \<Rightarrow> 'req \<Rightarrow> parsedUrl \<Rightarrow> error + 'req atTry" where
  "beforeRender d this req url =
     (case pathname url of
        None \<Rightarrow> Inl (Error ''pathname is undefined'')
      | Some pathname0 \<Rightarrow>
        if pathname0 = [] then Inl (Error ''pathname is undefined'')
        else
          let query0 = query url;
              (pathname1, req1) = resolvePage d this req pathname0 query0;
              pathname2 = removeTrailingSlash d pathname1;
              query1 = recordLocale this pathname2 query0;
              bubble = truthy_qval (query1 ''_nextBubbleNoFallback'');
              query2 =
                (if isAPIRoute d pathname2 then query1(''_nextBubbleNoFallback'' := None)
                 else query1)
          in Inr \<lparr>atTryReq = req1, atTryPathname = pathname2, atTryQuery = query2,
                  atTryParsedUrl = url\<lparr>query := query2\<rparr>, bubbleNoFallback = bubble\<rparr>)"

record finished =
  finished :: bool

text \<open>
  \<open>handleCatchallRenderRequest\<close> (lines 134-194). \<open>render\<close> is \<open>this.render\<close> of the
  base server: it returns normally (\<open>Inr ()\<close>) or throws (\<open>Inl err\<close>).
\<close>

definition handleCatchallRenderRequest ::
  "('req, 'rx) deps \<Rightarrow> server \<Rightarrow>
   ('req \<Rightarrow> 'res \<Rightarrow> string \<Rightarrow> query \<Rightarrow> parsedUrl \<Rightarrow> bool \<Rightarrow> error + unit) \<Rightarrow>
   'req \<Rightarrow> 'res \<Rightarrow> parsedUrl \<Rightarrow> error + finished" where
  "handleCatchallRenderRequest d this render req res url =
     (case beforeRender d this req url of
        Inl err \<Rightarrow> Inl err
      | Inr s \<Rightarrow>
          (case render (atTryReq s) res (atTryPathname s) (atTryQuery s) (atTryParsedUrl s) True of
             Inr _ \<Rightarrow> Inr \<lparr>finished = True\<rparr>
           | Inl err \<Rightarrow>
               if err = NoFallbackError \<and> bubbleNoFallback s then Inr \<lparr>finished = False\<rparr>
               else Inl err))"

subsection \<open>\<open>sendRenderResult\<close>: the response and the stream writer\<close>

text \<open>
  A JavaScript string is a sequence of UTF-16 code units; \<open>payload.length\<close> counts them.
  Header names and values are written as \<open>string\<close>.
\<close>

type_synonym jsstring = "16 word list"

type_synonym chunk = "8 word list"

text \<open>
  The promise \<open>writer.closed\<close> settles once, fulfilled when the stream closes and
  rejected when it is cancelled or errors. \<open>p.then(f, g)\<close> attaches a reaction with two
  optional handlers. The only handler \<open>sendRenderResult\<close> builds is its closure \<open>onClose\<close>.
\<close>

datatype outcome = Fulfilled | Rejected

datatype handler = OnClose

record reaction =
  onFulfilled :: "handler option"
  onRejected :: "handler option"

text \<open>
  A rejection nobody handles: the one of \<open>writer.closed\<close> itself, passed on by a reaction
  without a rejection handler (or with no reaction at all); the one of a promise that
  \<open>target.write\<close> or \<open>target.end\<close> returned (they return the promises of
  \<open>writer.write(chunk)\<close> and \<open>writer.close()\<close>) when the caller dropped it; or the one of
  the promise that \<open>then\<close> returns, when the handler it ran threw.
\<close>

datatype rejection = ClosedRejected | WriteRejected | EndRejected | HandlerThrew

text \<open>
  The writer of \<open>res.transformStream.writable\<close> together with the closure state of
  \<open>sendRenderResult\<close>: the variable \<open>innerClose\<close>, the reactions attached to
  \<open>writer.closed\<close>, how that promise settled (\<open>None\<close> while pending), the chunks
  written, the write promises not yet settled (for each, whether the caller of
  \<open>target.write\<close> handles it), whether \<open>writer.close()\<close> was called and whether its
  pending promise is handled, how often \<open>onClose\<close> ran, the callbacks invoked so far in
  order, and the unhandled rejections so far.
\<close>

record 'cb writer =
  innerClose :: "'cb option"
  reactions :: "reaction list"
  closed :: "outcome option"
  written :: "chunk list"
  pendingWrites :: "bool list"
  closeCalled :: bool
  pendingClose :: "bool option"
  onCloseRuns :: nat
  invoked :: "'cb list"
  unhandled :: "rejection list"

text \<open>
  The response object (\<open>WebNextResponse\<close>): its headers, the body set by \<open>res.body\<close>,
  whether \<open>res.send()\<close> ran, the writer once \<open>getWriter()\<close> handed it out, and whether
  the render result was piped into the target. A header name stands for all its spellings
  (the response looks names up without regard to case).
\<close>

record 'cb response =
  headers :: "string \<rightharpoonup> string"
  textBody :: "jsstring option"
  sent :: bool
  streamWriter :: "'cb writer option"
  piped :: bool

definition setHeader :: "string \<Rightarrow> string \<Rightarrow> 'cb response \<Rightarrow> 'cb response" where
  "setHeader name v res = res\<lparr>headers := (headers res)(name \<mapsto> v)\<rparr>"

definition getHeader :: "string \<Rightarrow> 'cb response \<Rightarrow> string option" where
  "getHeader name res = headers res name"

text \<open>\<open>RenderResult\<close> (declared in \<open>./render-result\<close>): the members the method uses.
  \<open>toUnchunkedString\<close> is the string the promise of that method resolves to.\<close>

record RenderResult =
  contentType :: "string option"
  isDynamic :: bool
  toUnchunkedString :: jsstring

datatype contentKind = html | json

record sendOptions =
  result :: RenderResult
  kind :: contentKind
  generateEtags :: bool
  poweredByHeader :: bool

text \<open>\<open>String(n)\<close> for a non-negative integer: its decimal digits.\<close>

definition digit :: "nat \<Rightarrow> char" where
  "digit n = char_of (48 + n)"

function String_of :: "nat \<Rightarrow> string" where
  "String_of n = (if n < 10 then [digit n] else String_of (n div 10) @ [digit (n mod 10)])"
  by pat_completeness auto
termination
  by (relation "measure id") auto

declare String_of.simps [simp del]

text \<open>
  \<open>sendRenderResult\<close> (lines 227-290). \<open>byteLength\<close> and \<open>generateETag\<close> are the
  imported helpers. The field \<open>kind\<close> is \<open>options.type\<close>. In the streaming branch the
  method obtains the writer, attaches \<open>then(onClose, onClose)\<close> to \<open>writer.closed\<close> and
  pipes the result into the target; what the pipe and the stream do afterwards are the
  events below.
\<close>

definition sendRenderResult ::
  "(jsstring \<Rightarrow> nat) \<Rightarrow> (jsstring \<Rightarrow> string) \<Rightarrow> 'cb response \<Rightarrow> sendOptions \<Rightarrow> 'cb response" where
  "sendRenderResult byteLength generateETag res options =
     (let res1 = setHeader ''X-Edge-Runtime'' ''1'' res;
          res2 = (if poweredByHeader options \<and> kind options = html
                  then setHeader ''X-Powered-By'' ''Next.js'' res1 else res1);
          res3 = (if \<not> truthy_str (getHeader ''Content-Type'' res2)
                  then setHeader ''Content-Type''
                         (if truthy_str (contentType (result options))
                          then (case contentType (result options) of Some ct \<Rightarrow> ct | None \<Rightarrow> [])
                          else if kind options = json then ''application/json''
                          else ''text/html; charset=utf-8'')
                         res2
                  else res2);
          res4 = (if isDynamic (result options) then
                    res3\<lparr>streamWriter :=
                           Some \<lparr>innerClose = None,
                                 reactions = [\<lparr>onFulfilled = Some OnClose, onRejected = Some OnClose\<rparr>],
                                 closed = None, written = [], pendingWrites = [],
                                 closeCalled = False, pendingClose = None, onCloseRuns = 0,
                                 invoked = [], unhandled = []\<rparr>,
                         piped := True\<rparr>
                  else
                    let payload = toUnchunkedString (result options);
                        r1 = setHeader ''Content-Length'' (String_of (byteLength payload)) res3;
                        r2 = (if generateEtags options
                              then setHeader ''ETag'' (generateETag payload) r1 else r1)
                    in r2\<lparr>textBody := Some payload\<rparr>)
      in res4\<lparr>sent := True\<rparr>)"

text \<open>
  What happens to the writer after the method has returned. The pipe drives the target:
  \<open>write\<close>, \<open>end\<close>, \<open>on('close', cb)\<close>, \<open>off('close', cb)\<close>. A \<open>write\<close> and an
  \<open>end\<close> carry whether the pipe handles the promise it gets back. The stream takes the
  queued chunks (\<open>Flushed\<close>: the pending write promises are fulfilled) and settles
  \<open>writer.closed\<close>.
\<close>

datatype 'cb event =
  TargetWrite chunk bool | TargetEnd bool | TargetOn 'cb | TargetOff | Flushed | Settle outcome

text \<open>
  The closure \<open>onClose\<close>: \<open>innerClose?.()\<close>. \<open>throws cb\<close> says whether the callback
  \<open>cb\<close> throws when called; then the promise returned by \<open>then\<close> is rejected and has
  no handler.
\<close>

definition onClose :: "('cb \<Rightarrow> bool) \<Rightarrow> 'cb writer \<Rightarrow> 'cb writer" where
  "onClose throws w =
     (let w0 = w\<lparr>onCloseRuns := Suc (onCloseRuns w)\<rparr>
      in case innerClose w0 of
           None \<Rightarrow> w0
         | Some cb \<Rightarrow>
             let w' = w0\<lparr>invoked := invoked w0 @ [cb]\<rparr>
             in if throws cb then w'\<lparr>unhandled := unhandled w' @ [HandlerThrew]\<rparr> else w')"

fun runHandler :: "('cb \<Rightarrow> bool) \<Rightarrow> handler \<Rightarrow> 'cb writer \<Rightarrow> 'cb writer" where
  "runHandler throws OnClose w = onClose throws w"

text \<open>One reaction of a settled promise: the handler for the outcome runs; without a
  handler a fulfilment is dropped and a rejection is passed on, unhandled.\<close>

definition react :: "('cb \<Rightarrow> bool) \<Rightarrow> outcome \<Rightarrow> reaction \<Rightarrow> 'cb writer \<Rightarrow> 'cb writer" where
  "react throws out r w =
     (case (case out of Fulfilled \<Rightarrow> onFulfilled r | Rejected \<Rightarrow> onRejected r) of
        Some h \<Rightarrow> runHandler throws h w
      | None \<Rightarrow>
          (case out of
             Fulfilled \<Rightarrow> w
           | Rejected \<Rightarrow> w\<lparr>unhandled := unhandled w @ [ClosedRejected]\<rparr>))"

text \<open>
  When the stream settles, so do the promises still pending on it: on a close they are
  fulfilled, on a cancellation or an error the pending writes and a pending
  \<open>writer.close()\<close> are rejected, and those the pipe dropped are unhandled.
\<close>

definition settlePending :: "outcome \<Rightarrow> 'cb writer \<Rightarrow> 'cb writer" where
  "settlePending out w =
     (case out of
        Fulfilled \<Rightarrow> w\<lparr>pendingWrites := [], pendingClose := None\<rparr>
      | Rejected \<Rightarrow>
          w\<lparr>pendingWrites := [], pendingClose := None,
            unhandled :=
              unhandled w @ map (\<lambda>handled. WriteRejected) (filter Not (pendingWrites w)) @
              (case pendingClose w of Some False \<Rightarrow> [EndRejected] | _ \<Rightarrow> [])\<rparr>)"

text \<open>
  A \<open>write\<close> or a \<open>close\<close> on a stream that has settled, or after \<open>close\<close> was
  called, returns a rejected promise; otherwise the chunk is queued and the promise
  pending. A promise settles once: a second \<open>Settle\<close> changes nothing.
\<close>

fun step :: "('cb \<Rightarrow> bool) \<Rightarrow> 'cb event \<Rightarrow> 'cb writer \<Rightarrow> 'cb writer" where
  "step throws (TargetWrite c handled) w =
     (if closed w \<noteq> None \<or> closeCalled w then
        (if handled then w else w\<lparr>unhandled := unhandled w @ [WriteRejected]\<rparr>)
      else w\<lparr>written := written w @ [c], pendingWrites := pendingWrites w @ [handled]\<rparr>)"
| "step throws (TargetEnd handled) w =
     (if closed w \<noteq> None \<or> closeCalled w then
        (if handled then w else w\<lparr>unhandled := unhandled w @ [EndRejected]\<rparr>)
      else w\<lparr>closeCalled := True, pendingClose := Some handled\<rparr>)"
| "step throws (TargetOn cb) w = w\<lparr>innerClose := Some cb\<rparr>"
| "step throws TargetOff w = w\<lparr>innerClose := None\<rparr>"
| "step throws Flushed w = w\<lparr>pendingWrites := []\<rparr>"
| "step throws (Settle out) w =
     (case closed w of
        Some _ \<Rightarrow> w
      | None \<Rightarrow>
          let w' = settlePending out (w\<lparr>closed := Some out\<rparr>)
          in if reactions w' = [] \<and> out = Rejected
             then w'\<lparr>unhandled := unhandled w' @ [ClosedRejected]\<rparr>
             else fold (react throws out) (reactions w') w')"

definition run :: "('cb \<Rightarrow> bool) \<Rightarrow> 'cb event list \<Rightarrow> 'cb writer \<Rightarrow> 'cb writer" where
  "run throws evs w = fold (step throws) evs w"

subsection \<open>The imported helpers, as the specification describes them\<close>

text \<open>
  Concrete instances need concrete helpers, and so do the properties that rest on a
  helper's result (the interpolated pathname, the byte length of a payload); these follow
  the specification's description of each.
\<close>

text \<open>Modelled from the spec: \<open>removeTrailingSlash\<close> (module
  \<open>shared/lib/router/utils/remove-trailing-slash\<close>, not part of the source at hand).
  "Trailing slash is always stripped from the final pathname (canonical form has no
  trailing slash except the root)": one trailing slash is dropped, and the root stays
  \<open>/\<close>.\<close>

definition removeTrailingSlash_spec :: "string \<Rightarrow> string" where
  "removeTrailingSlash_spec route =
     (let r = (if route \<noteq> [] \<and> last route = CHR ''/'' then butlast route else route)
      in if r = [] then ''/'' else r)"

text \<open>The segments of a path: the pieces between slashes.\<close>

fun segments :: "string \<Rightarrow> string list" where
  "segments [] = [[]]"
| "segments (c # cs) =
     (if c = CHR ''/'' then [] # segments cs
      else (case segments cs of s # ss \<Rightarrow> (c # s) # ss | [] \<Rightarrow> [[c]]))"

fun joinSlash :: "string list \<Rightarrow> string" where
  "joinSlash [] = []"
| "joinSlash [s] = s"
| "joinSlash (s # t # ss) = s @ ''/'' @ joinSlash (t # ss)"

text \<open>A parameter segment \<open>[name]\<close> and the name in it.\<close>

definition isParamSegment :: "string \<Rightarrow> bool" where
  "isParamSegment s = (3 \<le> length s \<and> hd s = CHR ''['' \<and> last s = CHR '']'')"

definition paramName :: "string \<Rightarrow> string" where
  "paramName s = butlast (tl s)"

text \<open>Modelled from the spec: \<open>isDynamicRoute\<close> (module \<open>shared/lib/router/utils\<close>, not
  part of the source at hand). A pathname is dynamic when it "contains parameter
  segments".\<close>

definition isDynamicRoute_spec :: "string \<Rightarrow> bool" where
  "isDynamicRoute_spec route = list_ex isParamSegment (segments route)"

text \<open>Modelled from the spec: \<open>getNamedRouteRegex\<close> (module
  \<open>shared/lib/router/utils/route-regex\<close>, not part of the source at hand). Of the
  "named-capture regex" compiled from the pathname the model keeps the parameter names,
  in order; these are also its route keys.\<close>

definition getNamedRouteRegex_spec :: "string \<Rightarrow> bool \<Rightarrow> string list" where
  "getNamedRouteRegex_spec route prefixRouteKeys =
     map paramName (filter isParamSegment (segments route))"

text \<open>
  \<open>encodeURIComponent\<close> on a string given by its bytes: letters, digits and the marks
  \<open>- _ . ! ~ * ' ( )\<close> stay, every other byte becomes \<open>%\<close> and its two hexadecimal
  digits. Neither a slash nor a bracket survives it.
\<close>

definition unreserved :: "char \<Rightarrow> bool" where
  "unreserved c =
     (c \<in> set ''ABCDEFGHIJKLMNOPQRSTUVWXYZabcdefghijklmnopqrstuvwxyz0123456789-_.!~*()''
      \<or> c = CHR 0x27)"

definition hexDigit :: "nat \<Rightarrow> char" where
  "hexDigit n = ''0123456789ABCDEF'' ! (n mod 16)"

definition encodeChar :: "char \<Rightarrow> string" where
  "encodeChar c =
     (if unreserved c then [c]
      else [CHR ''%'', hexDigit (of_char c div 16), hexDigit (of_char c mod 16)])"

definition encodeURIComponent :: "string \<Rightarrow> string" where
  "encodeURIComponent s = concat (map encodeChar s)"

text \<open>The text a parameter value contributes to the path: a string encoded, an array
  with its members encoded and joined by slashes, nothing for a missing value.\<close>

fun qvalString :: "qval option \<Rightarrow> string" where
  "qvalString None = []"
| "qvalString (Some (QStr v)) = encodeURIComponent v"
| "qvalString (Some (QArr vs)) = joinSlash (map encodeURIComponent vs)"

text \<open>Modelled from the spec: \<open>interpolateDynamicPath\<close> (module \<open>server/server-utils\<close>,
  not part of the source at hand). It "substitutes actual parameter values from the query
  mapping into the path segments, producing a fully-resolved path": every parameter
  segment gives way to the value of its parameter, encoded as a URI component, so
  \<open>/blog/[slug]\<close> with \<open>{slug: "hello"}\<close> becomes \<open>/blog/hello\<close>.\<close>

definition interpolateDynamicPath_spec :: "string \<Rightarrow> query \<Rightarrow> string list \<Rightarrow> string" where
  "interpolateDynamicPath_spec route params routeRegex =
     joinSlash (map (\<lambda>s. if isParamSegment s \<and> paramName s \<in> set routeRegex
                            then qvalString (params (paramName s)) else s)
                    (segments route))"

text \<open>A request, as far as \<open>normalizeVercelUrl\<close> touches it: the path and the query
  entries of \<open>req.url\<close>.\<close>

record request =
  urlPath :: string
  urlQuery :: "(string \<times> string) list"

text \<open>Modelled from the spec: \<open>normalizeVercelUrl\<close> (module \<open>server/server-utils\<close>, not
  part of the source at hand). It "rewrites any normalized URL query keys that collide
  with route parameter names": the entries of \<open>req.url\<close> under a parameter key go.\<close>

definition normalizeVercelUrl_spec ::
  "request \<Rightarrow> bool \<Rightarrow> string list \<Rightarrow> bool \<Rightarrow> string list \<Rightarrow> request" where
  "normalizeVercelUrl_spec req trustQuery paramKeys pageIsDynamic routeRegex =
     (if pageIsDynamic \<and> trustQuery
      then req\<lparr>urlQuery := filter (\<lambda>(k, v). k \<notin> set paramKeys) (urlQuery req)\<rparr>
      else req)"

text \<open>Modelled from the spec: \<open>isAPIRoute\<close> (module \<open>lib/is-api-route\<close>, not part of the
  source at hand). The path "is recognized as a programmatic API-style route": it is
  \<open>/api\<close> or lies below it.\<close>

definition isAPIRoute_spec :: "string \<Rightarrow> bool" where
  "isAPIRoute_spec p = (p = ''/api'' \<or> take 5 p = ''/api/'')"

definition deps_spec :: "(request, string list) deps" where
  "deps_spec =
     \<lparr>removeTrailingSlash = removeTrailingSlash_spec,
      isDynamicRoute = isDynamicRoute_spec,
      getNamedRouteRegex = getNamedRouteRegex_spec,
      routeKeys = (\<lambda>rx. rx),
      interpolateDynamicPath = interpolateDynamicPath_spec,
      normalizeVercelUrl = normalizeVercelUrl_spec,
      isAPIRoute = isAPIRoute_spec\<rparr>"

text \<open>Modelled from the spec: the \<open>analyze\<close> method of the locale provider (module
  \<open>server/future/helpers/i18n-provider\<close>, not part of the source at hand). It "analyzes
  the resolved pathname" and detects a locale prefix: when the first segment is one of the
  configured locales, that is the detected locale and the rest is the pathname.\<close>

definition analyze_spec :: "string list \<Rightarrow> string \<Rightarrow> LocaleAnalysisResult" where
  "analyze_spec locales p =
     (case segments p of
        [] # l # rest \<Rightarrow>
          if l \<in> set locales
          then \<lparr>analysedPathname = CHR ''/'' # joinSlash rest, detectedLocale = Some l\<rparr>
          else \<lparr>analysedPathname = p, detectedLocale = None\<rparr>
      | _ \<Rightarrow> \<lparr>analysedPathname = p, detectedLocale = None\<rparr>)"

text \<open>Modelled from the spec: \<open>byteLength\<close> (module \<open>server/api-utils/web\<close>, not part
  of the source at hand). The "byte length, not character length" of the payload "under
  multi-byte text": the number of bytes of its UTF-8 encoding. A code unit below
  \<open>0x80\<close> takes one byte, one below \<open>0x800\<close> two, a surrogate pair four, and any
  other code unit three (an unpaired surrogate is encoded as U+FFFD).\<close>

definition utf8Units :: "16 word \<Rightarrow> nat" where
  "utf8Units u = (if u < 0x80 then 1 else if u < 0x800 then 2 else 3)"

definition isHighSurrogate :: "16 word \<Rightarrow> bool" where
  "isHighSurrogate u = (0xD800 \<le> u \<and> u \<le> 0xDBFF)"

definition isLowSurrogate :: "16 word \<Rightarrow> bool" where
  "isLowSurrogate u = (0xDC00 \<le> u \<and> u \<le> 0xDFFF)"

fun byteLength_spec :: "jsstring \<Rightarrow> nat" where
  "byteLength_spec [] = 0"
| "byteLength_spec [u] = utf8Units u"
| "byteLength_spec (u # v # rest) =
     (if isHighSurrogate u \<and> isLowSurrogate v then 4 + byteLength_spec rest
      else utf8Units u + byteLength_spec (v # rest))"

subsection \<open>Concrete requests, servers and stores\<close>

definition devOpts :: RenderOpts where
  "devOpts = \<lparr>dev = Some True, buildId = ''build-1'', disableOptimizedLoading = None,
               runtime = None\<rparr>"

definition prodOpts :: RenderOpts where
  "prodOpts = \<lparr>dev = Some False, buildId = ''build-1'', disableOptimizedLoading = None,
                runtime = None\<rparr>"

definition devStore :: "unit store" where
  "devStore r = devOpts"

definition noRenderToHTML ::
  "(unit \<Rightarrow> unit \<Rightarrow> string \<Rightarrow> query \<Rightarrow> ref \<Rightarrow> unit store \<Rightarrow>
    (string \<times> query \<times> ref) \<times> unit store) option" where
  "noRenderToHTML = None"

text \<open>A rendering function that assigns \<open>runtime\<close> on the options it is given, and
  two later requests, one on another options object and one on the first.\<close>

definition resetRuntime ::
  "unit \<Rightarrow> unit \<Rightarrow> string \<Rightarrow> query \<Rightarrow> ref \<Rightarrow> unit store \<Rightarrow> (string \<times> query \<times> ref) \<times> unit store" where
  "resetRuntime req res p q renderOpts h =
     ((p, q, renderOpts), h(renderOpts := (h renderOpts)\<lparr>runtime := Some ''nodejs''\<rparr>))"

definition laterCalls :: "(unit \<times> unit \<times> string \<times> query \<times> ref) list" where
  "laterCalls = [((), (), ''/blog'', Map.empty, 1), ((), (), ''/not-found'', Map.empty, 0)]"

definition builtManifest :: "nat PrerenderManifest" where
  "builtManifest =
     \<lparr>version = 4, routes = [''/'' \<mapsto> 1], dynamicRoutes = Map.empty,
      notFoundRoutes = [''/gone''], preview = \<lparr>previewModeId = ''abc''\<rparr>\<rparr>"

definition noManifest :: "nat PrerenderManifest option" where
  "noManifest = None"

definition req0 :: request where
  "req0 = \<lparr>urlPath = ''/about'', urlQuery = []\<rparr>"

text \<open>A \<open>render\<close> that throws the given error whatever it is called with.\<close>

definition renderThrows ::
  "error \<Rightarrow> request \<Rightarrow> unit \<Rightarrow> string \<Rightarrow> query \<Rightarrow> parsedUrl \<Rightarrow> bool \<Rightarrow> error + unit" where
  "renderThrows e req res p q url internalRender = Inl e"

definition aboutServer :: server where
  "aboutServer = \<lparr>configPathname = ''/about'', i18nProvider = None\<rparr>"

definition aboutUrlBubble :: parsedUrl where
  "aboutUrlBubble =
     \<lparr>pathname = Some ''/about'', query = [''_nextBubbleNoFallback'' \<mapsto> QStr ''1'']\<rparr>"

definition aboutUrlPlain :: parsedUrl where
  "aboutUrlPlain = \<lparr>pathname = Some ''/about'', query = Map.empty\<rparr>"

definition apiServer :: server where
  "apiServer = \<lparr>configPathname = ''/api/hello'', i18nProvider = None\<rparr>"

definition apiUrlBubble :: parsedUrl where
  "apiUrlBubble =
     \<lparr>pathname = Some ''/api/hello'', query = [''_nextBubbleNoFallback'' \<mapsto> QStr ''1'']\<rparr>"






definition frServer :: server where
  "frServer =
     \<lparr>configPathname = ''/fr/about'', i18nProvider = Some (analyze_spec [''en'', ''fr''])\<rparr>"

definition frUrl :: parsedUrl where
  "frUrl = \<lparr>pathname = Some ''/fr/about'', query = Map.empty\<rparr>"

definition localeServer :: server where
  "localeServer =
     \<lparr>configPathname = ''/about'', i18nProvider = Some (analyze_spec [''en'', ''fr''])\<rparr>"

text \<open>An ETag function for the instances: any function of the payload serves.\<close>

definition etagOf :: "jsstring \<Rightarrow> string" where
  "etagOf payload = ''W/'' @ String_of (length payload)"

definition freshResponse :: "nat response" where
  "freshResponse =
     \<lparr>headers = Map.empty, textBody = None, sent = False, streamWriter = None,
      piped = False\<rparr>"

definition emptyTypeResponse :: "nat response" where
  "emptyTypeResponse =
     \<lparr>headers = [''Content-Type'' \<mapsto> ''''], textBody = None, sent = False,
      streamWriter = None, piped = False\<rparr>"

definition plainTypeResponse :: "nat response" where
  "plainTypeResponse =
     \<lparr>headers = [''Content-Type'' \<mapsto> ''text/plain''], textBody = None,
      sent = False,
      streamWriter = None, piped = False\<rparr>"

text \<open>The payload \<open>caf\<close> followed by e-acute: four code units, the last is U+00E9.\<close>

definition cafe :: jsstring where
  "cafe = [0x63, 0x61, 0x66, 0xE9]"

definition cafeResult :: RenderResult where
  "cafeResult =
     \<lparr>contentType = None, isDynamic = False, toUnchunkedString = cafe\<rparr>"

definition cafeHtml :: sendOptions where
  "cafeHtml =
     \<lparr>result = cafeResult, kind = html, generateEtags = True,
      poweredByHeader = True\<rparr>"

definition cafeJson :: sendOptions where
  "cafeJson =
     \<lparr>result = cafeResult, kind = json, generateEtags = False,
      poweredByHeader = True\<rparr>"

definition xmlResult :: RenderResult where
  "xmlResult =
     \<lparr>contentType = Some ''text/xml'', isDynamic = False,
      toUnchunkedString = cafe\<rparr>"

definition xmlHtml :: sendOptions where
  "xmlHtml =
     \<lparr>result = xmlResult, kind = html, generateEtags = False,
      poweredByHeader = False\<rparr>"

definition neverThrows :: "nat \<Rightarrow> bool" where
  "neverThrows cb = False"

definition streamResult :: RenderResult where
  "streamResult =
     \<lparr>contentType = None, isDynamic = True, toUnchunkedString = []\<rparr>"

definition streamHtml :: sendOptions where
  "streamHtml =
     \<lparr>result = streamResult, kind = html, generateEtags = False,
      poweredByHeader = False\<rparr>"

definition freshWriter :: "nat writer" where
  "freshWriter =
     \<lparr>innerClose = None,
      reactions = [\<lparr>onFulfilled = Some OnClose, onRejected = Some OnClose\<rparr>],
      closed = None, written = [], pendingWrites = [], closeCalled = False,
      pendingClose = None, onCloseRuns = 0, invoked = [], unhandled = []\<rparr>"

text \<open>
  A cancelled stream: the pipe registers its callback and writes a chunk, the stream
  takes it, the consumer cancels, and the pipe's next write meets the cancelled stream. A graceful close: the
  pipe registers, writes, deregisters, ends, and the stream closes. The pipe drops the
  promises it gets back.
\<close>

definition cancelledRun :: "nat event list" where
  "cancelledRun =
     [TargetOn 7, TargetWrite [104, 105] False, Flushed] @
     Settle Rejected # [TargetWrite [33] False, TargetOff]"

definition gracefulRun :: "nat event list" where
  "gracefulRun =
     [TargetOn 7, TargetWrite [104, 105] False, TargetOff, TargetEnd False] @
     Settle Fulfilled # []"

section \<open>Properties\<close>

subsection \<open>What reaches the \<open>try\<close> block\<close>

lemma beforeRender_Inr:
  assumes "pathname url = Some p0" and "p0 \<noteq> []"
  shows "beforeRender d this req url =
     Inr \<lparr>atTryReq = snd (resolvePage d this req p0 (query url)),
          atTryPathname = removeTrailingSlash d (fst (resolvePage d this req p0 (query url))),
          atTryQuery =
            (if isAPIRoute d (removeTrailingSlash d (fst (resolvePage d this req p0 (query url))))
             then (recordLocale this
                     (removeTrailingSlash d (fst (resolvePage d this req p0 (query url))))
                     (query url))
                    (''_nextBubbleNoFallback'' := None)
             else recordLocale this
                    (removeTrailingSlash d (fst (resolvePage d this req p0 (query url))))
                    (query url)),
          atTryParsedUrl = url\<lparr>query :=
            (if isAPIRoute d (removeTrailingSlash d (fst (resolvePage d this req p0 (query url))))
             then (recordLocale this
                     (removeTrailingSlash d (fst (resolvePage d this req p0 (query url))))
                     (query url))
                    (''_nextBubbleNoFallback'' := None)
             else recordLocale this
                    (removeTrailingSlash d (fst (resolvePage d this req p0 (query url))))
                    (query url))\<rparr>,
          bubbleNoFallback = truthy_qval
            (recordLocale this
               (removeTrailingSlash d (fst (resolvePage d this req p0 (query url))))
               (query url) ''_nextBubbleNoFallback'')\<rparr>"
  using assms by (simp add: beforeRender_def Let_def split_beta)


lemma recordLocale_flag:
  "recordLocale this p q ''_nextBubbleNoFallback'' = q ''_nextBubbleNoFallback''"
  by (simp add: recordLocale_def split: option.splits)

lemma resolvePage_no_provider:
  "resolvePage d (this\<lparr>i18nProvider := x\<rparr>) req p q = resolvePage d this req p q"
  by (simp add: resolvePage_def)

lemmas concrete_defs =
  beforeRender_def resolvePage_def recordLocale_def deps_spec_def
  removeTrailingSlash_spec_def isAPIRoute_spec_def Let_def
  isDynamicRoute_spec_def isParamSegment_def interpolateDynamicPath_spec_def
  getNamedRouteRegex_spec_def paramName_def normalizeVercelUrl_spec_def req0_def
  analyze_spec_def encodeURIComponent_def encodeChar_def unreserved_def

subsection \<open>Fallback bubbling\<close>

text \<open>Without a pathname the method throws before it calls \<open>render\<close>, whatever
  \<open>render\<close> would do.\<close>

lemma handleCatchallRenderRequest_no_pathname:
  assumes "pathname url = None \<or> pathname url = Some []"
  shows "handleCatchallRenderRequest d this render req res url
           = Inl (Error ''pathname is undefined'')"
  using assms by (auto simp: handleCatchallRenderRequest_def beforeRender_def)

text \<open>
  Claim C1. For a request with a non-empty pathname, \<open>handleCatchallRenderRequest\<close>
  reaches the call of \<open>render\<close>. When that call throws \<open>NoFallbackError\<close> and the query
  flag \<open>_nextBubbleNoFallback\<close> of the request is truthy, the method returns
  \<open>{finished: false}\<close> and throws nothing; when the flag is absent or falsy, the
  \<open>NoFallbackError\<close> is thrown on to the caller; and any other error is thrown on to
  the caller whatever the flag is.
\<close>

theorem handleCatchallRenderRequest_noFallback:
  assumes "pathname url = Some p0" and "p0 \<noteq> []"
  shows "\<exists>s. beforeRender d this req url = Inr s \<and>
     (let thrown = render (atTryReq s) res (atTryPathname s) (atTryQuery s) (atTryParsedUrl s) True
      in (thrown = Inl NoFallbackError \<and> truthy_qval (query url ''_nextBubbleNoFallback'') \<longrightarrow>
            handleCatchallRenderRequest d this render req res url = Inr \<lparr>finished = False\<rparr>) \<and>
         (thrown = Inl NoFallbackError \<and> \<not> truthy_qval (query url ''_nextBubbleNoFallback'') \<longrightarrow>
            handleCatchallRenderRequest d this render req res url = Inl NoFallbackError) \<and>
         (\<forall>msg. thrown = Inl (Error msg) \<longrightarrow>
            handleCatchallRenderRequest d this render req res url = Inl (Error msg)))"
  by (simp add: beforeRender_Inr [OF assms] handleCatchallRenderRequest_def recordLocale_flag Let_def)

theorem handleCatchallRenderRequest_noFallback_witness:
  "handleCatchallRenderRequest deps_spec aboutServer (renderThrows NoFallbackError) req0 ()
     aboutUrlBubble = Inr \<lparr>finished = False\<rparr> \<and>
   handleCatchallRenderRequest deps_spec aboutServer (renderThrows NoFallbackError) req0 ()
     aboutUrlPlain = Inl NoFallbackError \<and>
   handleCatchallRenderRequest deps_spec aboutServer (renderThrows (Error ''render failed'')) req0 ()
     aboutUrlBubble = Inl (Error ''render failed'')"
proof -
  have b: "pathname aboutUrlBubble = Some ''/about''"
    and p: "pathname aboutUrlPlain = Some ''/about''"
    and n: "''/about'' \<noteq> []"
    by (simp_all add: aboutUrlBubble_def aboutUrlPlain_def)
  have fb: "truthy_qval (query aboutUrlBubble ''_nextBubbleNoFallback'')"
    and fp: "\<not> truthy_qval (query aboutUrlPlain ''_nextBubbleNoFallback'')"
    by (simp_all add: aboutUrlBubble_def aboutUrlPlain_def)
  from handleCatchallRenderRequest_noFallback
         [OF b n, of deps_spec aboutServer req0 "renderThrows NoFallbackError" "()"] fb
  have 1: "handleCatchallRenderRequest deps_spec aboutServer (renderThrows NoFallbackError) req0 ()
             aboutUrlBubble = Inr \<lparr>finished = False\<rparr>"
    by (auto simp: renderThrows_def Let_def)
  from handleCatchallRenderRequest_noFallback
         [OF p n, of deps_spec aboutServer req0 "renderThrows NoFallbackError" "()"] fp
  have 2: "handleCatchallRenderRequest deps_spec aboutServer (renderThrows NoFallbackError) req0 ()
             aboutUrlPlain = Inl NoFallbackError"
    by (auto simp: renderThrows_def Let_def)
  from handleCatchallRenderRequest_noFallback
         [OF b n, of deps_spec aboutServer req0 "renderThrows (Error ''render failed'')" "()"]
  have 3: "handleCatchallRenderRequest deps_spec aboutServer (renderThrows (Error ''render failed''))
             req0 () aboutUrlBubble = Inl (Error ''render failed'')"
    by (auto simp: renderThrows_def Let_def)
  from 1 2 3 show ?thesis by simp
qed

subsection \<open>The prerender manifest\<close>

text \<open>
  Claim C8. \<open>getPrerenderManifest\<close> returns the supplied prerender manifest unchanged
  when one was supplied and \<open>dev\<close> is not truthy. When \<open>dev\<close> is truthy or no manifest
  was supplied, the manifest it returns has version \<open>-1\<close>, empty \<open>routes\<close> and
  \<open>dynamicRoutes\<close>, an empty \<open>notFoundRoutes\<close> and the preview mode id
  \<open>development-id\<close>; so the result is a manifest in every case.
\<close>

theorem getPrerenderManifest_cases:
  "(\<forall>m. prerenderManifest = Some m \<and> \<not> truthy_bool (dev renderOpts) \<longrightarrow>
        getPrerenderManifest renderOpts prerenderManifest = m) \<and>
   (truthy_bool (dev renderOpts) \<or> prerenderManifest = None \<longrightarrow>
        version (getPrerenderManifest renderOpts prerenderManifest) = -1 \<and>
        routes (getPrerenderManifest renderOpts prerenderManifest) = Map.empty \<and>
        dynamicRoutes (getPrerenderManifest renderOpts prerenderManifest) = Map.empty \<and>
        notFoundRoutes (getPrerenderManifest renderOpts prerenderManifest) = [] \<and>
        previewModeId (preview (getPrerenderManifest renderOpts prerenderManifest))
          = ''development-id'')"
  by (cases prerenderManifest; cases "truthy_bool (dev renderOpts)")
     (simp_all add: getPrerenderManifest_def)

theorem getPrerenderManifest_cases_witness:
  "getPrerenderManifest prodOpts (Some builtManifest) = builtManifest \<and>
   version (getPrerenderManifest devOpts (Some builtManifest)) = -1 \<and>
   previewModeId (preview (getPrerenderManifest prodOpts noManifest)) = ''development-id''"
proof -
  have a: "\<not> truthy_bool (dev prodOpts)" and b: "truthy_bool (dev devOpts)"
    by (simp_all add: prodOpts_def devOpts_def)
  from getPrerenderManifest_cases [of "Some builtManifest" prodOpts] a
  have 1: "getPrerenderManifest prodOpts (Some builtManifest) = builtManifest" by blast
  from getPrerenderManifest_cases [of "Some builtManifest" devOpts] b
  have 2: "version (getPrerenderManifest devOpts (Some builtManifest)) = -1" by blast
  from getPrerenderManifest_cases [of noManifest prodOpts]
  have 3: "previewModeId (preview (getPrerenderManifest prodOpts noManifest)) = ''development-id''"
    by (simp add: noManifest_def)
  from 1 2 3 show ?thesis by simp
qed

subsection \<open>\<open>renderHTML\<close>: the not-found marker and the overlay\<close>

text \<open>
  Claim C7. In \<open>renderHTML\<close>, the pathname handed to the injected rendering function is
  \<open>/404\<close> when the incoming pathname equals the not-found marker (\<open>/not-found\<close> when
  \<open>renderOpts.dev\<close> is truthy, \<open>/_not-found\<close> otherwise), and is the incoming pathname
  itself in every other case. This holds for every rendering function \<open>f\<close>: the result
  of \<open>renderHTML\<close> is the result of \<open>f\<close> at that pathname.
\<close>

theorem renderHTML_pathname:
  "renderHTML (Some f) req res p q renderOpts h =
     (case f req res
             (if p = (if truthy_bool (dev (h renderOpts)) then ''/not-found''
                      else ''/_not-found'')
              then ''/404'' else p)
             q renderOpts (snd (Object_assign_overlay renderOpts h)) of
        (r, h') \<Rightarrow> (Inr r, h'))"
  by (simp add: renderHTML_def Object_assign_overlay_def Let_def)

theorem renderHTML_pathname_witness:
  "fst (renderHTML (Some recordCall) () () ''/not-found'' Map.empty 0 devStore)
     = Inr (''/404'', Map.empty, 0) \<and>
   fst (renderHTML (Some recordCall) () () ''/_not-found'' Map.empty 0 devStore)
     = Inr (''/_not-found'', Map.empty, 0)"
  using renderHTML_pathname [of recordCall "()" "()" "''/not-found''" Map.empty 0 devStore]
        renderHTML_pathname [of recordCall "()" "()" "''/_not-found''" Map.empty 0 devStore]
  by (simp add: recordCall_def devStore_def devOpts_def)

text \<open>
  Claim C10, as stated, says that every call of \<open>renderHTML\<close> sets
  \<open>disableOptimizedLoading\<close> and \<open>runtime\<close> on the server's shared render options and
  that they remain so for all subsequent requests. Three calls say otherwise. A call on a
  server without \<open>renderToHTML\<close> throws before the overlay and leaves the object as it
  was. A call that is given another options object (reference \<open>1\<close>) hands that object
  to the rendering function and leaves the object at reference \<open>0\<close> untouched. And a
  rendering function that assigns \<open>runtime\<close> on the object it receives leaves the field
  changed when the call returns.
\<close>

theorem renderHTML_overlay_counterexample:
  "renderHTML noRenderToHTML () () ''/about'' Map.empty 0 devStore =
     (Inl (Error ''Invariant: routeModule should be configured when rendering pages''), devStore) \<and>
   disableOptimizedLoading
     (snd (renderHTML noRenderToHTML () () ''/about'' Map.empty 0 devStore) 0) \<noteq> Some True \<and>
   runtime
     (snd (renderHTML noRenderToHTML () () ''/about'' Map.empty 0 devStore) 0)
       \<noteq> Some ''experimental-edge'' \<and>
   fst (renderHTML (Some recordCall) () () ''/about'' Map.empty 1 devStore)
     = Inr (''/about'', Map.empty, 1) \<and>
   snd (renderHTML (Some recordCall) () () ''/about'' Map.empty 1 devStore) 0 = devOpts \<and>
   runtime devOpts = None \<and>
   runtime (snd (renderHTML (Some resetRuntime) () () ''/about'' Map.empty 0 devStore) 0)
     = Some ''nodejs''"
  by (simp add: renderHTML_def noRenderToHTML_def devStore_def devOpts_def recordCall_def
        resetRuntime_def Object_assign_overlay_def)


lemma overlaid_renderHTML:
  assumes "keepsOverlay f r" and "overlaid h r"
  shows "overlaid (snd (renderHTML (Some f) req res p q r' h)) r"
proof -
  let ?h1 = "h(r' := (h r')\<lparr>disableOptimizedLoading := Some True,
                            runtime := Some ''experimental-edge''\<rparr>)"
  from assms(2) have "overlaid ?h1 r" by (simp add: overlaid_def)
  with assms(1) have "overlaid (snd (f req res
       (if p = (if truthy_bool (dev (h r')) then ''/not-found'' else ''/_not-found'')
        then ''/404'' else p) q r' ?h1)) r"
    unfolding keepsOverlay_def by blast
  then show ?thesis
    by (simp add: renderHTML_def Object_assign_overlay_def Let_def split_beta)
qed

lemma overlaid_renderHTMLs:
  assumes "keepsOverlay f r" and "overlaid h r"
  shows "overlaid (renderHTMLs (Some f) calls h) r"
  using assms(2)
proof (induction calls arbitrary: h)
  case Nil
  then show ?case by simp
next
  case (Cons c calls)
  obtain req res p q r' where c: "c = (req, res, p, q, r')" by (cases c) auto
  from overlaid_renderHTML [OF assms(1) Cons.prems]
  have "overlaid (snd (renderHTML (Some f) req res p q r' h)) r" .
  from Cons.IH [OF this] show ?case by (simp add: c)
qed

text \<open>
  Claim C10, amended. \<open>renderHTML\<close> hands the render options object it receives as its
  argument, the object itself and not a copy (the server's shared options exactly when
  the caller passes those), to the rendering function after \<open>Object.assign\<close>-ing onto
  it. So every call of \<open>renderHTML\<close> that reaches the rendering function sets
  \<open>disableOptimizedLoading\<close> to true and \<open>runtime\<close> to \<open>experimental-edge\<close> on that
  object before the function runs; the two fields remain so for all subsequent requests
  as long as the rendering function does not assign them; and the overlay leaves all
  other fields of the object, and all other objects, unchanged. A call without a
  configured \<open>renderToHTML\<close> throws before the overlay and changes nothing.
\<close>

theorem renderHTML_overlay:
  "renderHTML (Some f) req res p q renderOpts h =
     (case f req res
             (if p = (if truthy_bool (dev (h renderOpts)) then ''/not-found''
                      else ''/_not-found'')
              then ''/404'' else p)
             q renderOpts
             (h(renderOpts := (h renderOpts)\<lparr>disableOptimizedLoading := Some True,
                                              runtime := Some ''experimental-edge''\<rparr>)) of
        (r, h') \<Rightarrow> (Inr r, h')) \<and>
   (let h1 = snd (Object_assign_overlay renderOpts h) in
      disableOptimizedLoading (h1 renderOpts) = Some True \<and>
      runtime (h1 renderOpts) = Some ''experimental-edge'' \<and>
      dev (h1 renderOpts) = dev (h renderOpts) \<and>
      buildId (h1 renderOpts) = buildId (h renderOpts) \<and>
      RenderOpts.more (h1 renderOpts) = RenderOpts.more (h renderOpts) \<and>
      (\<forall>r'. r' \<noteq> renderOpts \<longrightarrow> h1 r' = h r')) \<and>
   (keepsOverlay f renderOpts \<longrightarrow>
      (\<forall>calls. overlaid
         (renderHTMLs (Some f) calls (snd (renderHTML (Some f) req res p q renderOpts h)))
         renderOpts)) \<and>
   renderHTML None req res p q renderOpts h =
     (Inl (Error ''Invariant: routeModule should be configured when rendering pages'')
        :: error + 'r, h)"
proof -
  let ?h1 = "h(renderOpts := (h renderOpts)\<lparr>disableOptimizedLoading := Some True,
                            runtime := Some ''experimental-edge''\<rparr>)"
  have o: "overlaid ?h1 renderOpts" by (simp add: overlaid_def)
  have first: "overlaid (snd (renderHTML (Some f) req res p q renderOpts h)) renderOpts"
    if k: "keepsOverlay f renderOpts"
  proof -
    from k o have "overlaid (snd (f req res
       (if p = (if truthy_bool (dev (h renderOpts)) then ''/not-found'' else ''/_not-found'')
        then ''/404'' else p) q renderOpts ?h1)) renderOpts"
      unfolding keepsOverlay_def by blast
    then show ?thesis
      by (simp add: renderHTML_def Object_assign_overlay_def Let_def split_beta)
  qed
  have later: "overlaid
         (renderHTMLs (Some f) calls (snd (renderHTML (Some f) req res p q renderOpts h)))
         renderOpts" if k: "keepsOverlay f renderOpts" for calls
    by (rule overlaid_renderHTMLs [OF k first [OF k]])
  have a: "renderHTML (Some f) req res p q renderOpts h =
     (case f req res
             (if p = (if truthy_bool (dev (h renderOpts)) then ''/not-found''
                      else ''/_not-found'')
              then ''/404'' else p)
             q renderOpts ?h1 of
        (r, h') \<Rightarrow> (Inr r, h'))"
    by (simp add: renderHTML_def Object_assign_overlay_def Let_def)
  have b: "(let h1 = snd (Object_assign_overlay renderOpts h) in
      disableOptimizedLoading (h1 renderOpts) = Some True \<and>
      runtime (h1 renderOpts) = Some ''experimental-edge'' \<and>
      dev (h1 renderOpts) = dev (h renderOpts) \<and>
      buildId (h1 renderOpts) = buildId (h renderOpts) \<and>
      RenderOpts.more (h1 renderOpts) = RenderOpts.more (h renderOpts) \<and>
      (\<forall>r'. r' \<noteq> renderOpts \<longrightarrow> h1 r' = h r'))"
    by (simp add: Object_assign_overlay_def Let_def)
  have c: "renderHTML None req res p q renderOpts h =
     (Inl (Error ''Invariant: routeModule should be configured when rendering pages'')
        :: error + 'r, h)"
    by (simp add: renderHTML_def)
  from a b later c show ?thesis by blast
qed

lemma keepsOverlay_recordCall: "keepsOverlay recordCall r"
  by (simp add: keepsOverlay_def recordCall_def)

theorem renderHTML_overlay_witness:
  "renderHTML (Some recordCall) () () ''/about'' Map.empty 0 devStore =
     (Inr (''/about'', Map.empty, 0),
      devStore(0 := devOpts\<lparr>disableOptimizedLoading := Some True,
                            runtime := Some ''experimental-edge''\<rparr>)) \<and>
   snd (Object_assign_overlay 0 devStore) 1 = devStore 1 \<and>
   overlaid (renderHTMLs (Some recordCall) laterCalls
               (snd (renderHTML (Some recordCall) () () ''/about'' Map.empty 0 devStore))) 0"
proof -
  note t = renderHTML_overlay [of recordCall "()" "()" "''/about''" Map.empty 0 devStore]
  from t [THEN conjunct1]
  have 1: "renderHTML (Some recordCall) () () ''/about'' Map.empty 0 devStore =
     (Inr (''/about'', Map.empty, 0),
      devStore(0 := devOpts\<lparr>disableOptimizedLoading := Some True,
                            runtime := Some ''experimental-edge''\<rparr>))"
    by (simp add: recordCall_def devStore_def devOpts_def)
  have "(1::nat) \<noteq> 0" by simp
  with t [THEN conjunct2, THEN conjunct1]
  have 2: "snd (Object_assign_overlay 0 devStore) 1 = devStore 1"
    by (simp add: Let_def)
  from t [THEN conjunct2, THEN conjunct2, THEN conjunct1] keepsOverlay_recordCall [of 0]
  have 3: "overlaid (renderHTMLs (Some recordCall) laterCalls
               (snd (renderHTML (Some recordCall) () () ''/about'' Map.empty 0 devStore))) 0"
    by blast
  from 1 2 3 show ?thesis by simp
qed


subsection \<open>The bubble flag in the query handed to \<open>render\<close>\<close>

text \<open>
  Claim C2, as stated, says that the query handed to \<open>render\<close> never contains
  \<open>_nextBubbleNoFallback\<close>. For the page \<open>/about\<close>, which is no API route, the flag of
  the incoming query is still there when \<open>render\<close> is called.
\<close>

theorem beforeRender_keeps_flag_counterexample:
  "beforeRender deps_spec aboutServer req0 aboutUrlBubble =
     Inr \<lparr>atTryReq = req0, atTryPathname = ''/about'',
          atTryQuery = [''_nextBubbleNoFallback'' \<mapsto> QStr ''1''],
          atTryParsedUrl = aboutUrlBubble, bubbleNoFallback = True\<rparr> \<and>
   [''_nextBubbleNoFallback'' \<mapsto> QStr ''1''] ''_nextBubbleNoFallback'' \<noteq> None"
  by (simp add: beforeRender_def resolvePage_def recordLocale_def deps_spec_def aboutServer_def
        aboutUrlBubble_def removeTrailingSlash_spec_def isAPIRoute_spec_def Let_def)


text \<open>
  Claim C2, amended. For every request with a non-empty pathname, the flag
  \<open>_nextBubbleNoFallback\<close> is removed from the query before \<open>render\<close> is invoked
  when the resolved pathname is an API route (\<open>isAPIRoute\<close>); for every other route the
  query handed to \<open>render\<close> carries the flag exactly as the incoming query had it.
\<close>

theorem beforeRender_flag:
  assumes "pathname url = Some p0" and "p0 \<noteq> []"
  shows "\<exists>s. beforeRender d this req url = Inr s \<and>
           atTryQuery s ''_nextBubbleNoFallback'' =
             (if isAPIRoute d (atTryPathname s) then None
              else query url ''_nextBubbleNoFallback'')"
  by (simp add: beforeRender_Inr [OF assms] recordLocale_flag)

theorem beforeRender_flag_witness:
  "(\<exists>s. beforeRender deps_spec apiServer req0 apiUrlBubble = Inr s \<and>
        atTryPathname s = ''/api/hello'' \<and>
        atTryQuery s ''_nextBubbleNoFallback'' = None) \<and>
   (\<exists>s. beforeRender deps_spec aboutServer req0 aboutUrlBubble = Inr s \<and>
        atTryPathname s = ''/about'' \<and>
        atTryQuery s ''_nextBubbleNoFallback'' = Some (QStr ''1''))"
proof -
  have a: "pathname apiUrlBubble = Some ''/api/hello''" and n: "''/api/hello'' \<noteq> []"
    and b: "pathname aboutUrlBubble = Some ''/about''" and m: "''/about'' \<noteq> []"
    by (simp_all add: apiUrlBubble_def aboutUrlBubble_def)
  from beforeRender_flag [OF a n, of deps_spec apiServer req0]
  have 1: "\<exists>s. beforeRender deps_spec apiServer req0 apiUrlBubble = Inr s \<and>
        atTryPathname s = ''/api/hello'' \<and>
        atTryQuery s ''_nextBubbleNoFallback'' = None"
    by (simp add: concrete_defs apiServer_def apiUrlBubble_def)
  from beforeRender_flag [OF b m, of deps_spec aboutServer req0]
  have 2: "\<exists>s. beforeRender deps_spec aboutServer req0 aboutUrlBubble = Inr s \<and>
        atTryPathname s = ''/about'' \<and>
        atTryQuery s ''_nextBubbleNoFallback'' = Some (QStr ''1'')"
    by (simp add: concrete_defs aboutServer_def aboutUrlBubble_def)
  from 1 2 show ?thesis by blast
qed


subsection \<open>The pathname handed to \<open>render\<close>\<close>





















subsection \<open>The locale step\<close>

text \<open>
  Claim C9, as stated, says that a detected locale prefix is stripped from the pathname
  passed onward. With a provider for the locales \<open>en\<close> and \<open>fr\<close> and the resolved
  pathname \<open>/fr/about\<close>, the analysis detects \<open>fr\<close> and offers \<open>/about\<close>, the locale
  is recorded in the query, and \<open>render\<close> still receives \<open>/fr/about\<close>.
\<close>

theorem recordLocale_pathname_counterexample:
  "beforeRender deps_spec frServer req0 frUrl =
     Inr \<lparr>atTryReq = req0, atTryPathname = ''/fr/about'',
          atTryQuery = [''__nextLocale'' \<mapsto> QStr ''fr''],
          atTryParsedUrl = frUrl\<lparr>query := [''__nextLocale'' \<mapsto> QStr ''fr'']\<rparr>, bubbleNoFallback = False\<rparr> \<and>
   analyze_spec [''en'', ''fr''] ''/fr/about'' = \<lparr>analysedPathname = ''/about'', detectedLocale = Some ''fr''\<rparr>"
  by (simp add: beforeRender_def resolvePage_def recordLocale_def deps_spec_def frServer_def
        frUrl_def removeTrailingSlash_spec_def isAPIRoute_spec_def Let_def analyze_spec_def)

text \<open>
  Claim C9, amended. If an i18n provider is configured and its analysis of the resolved
  pathname detects a (non-empty) locale, the locale is recorded in the query mapping as
  \<open>__nextLocale\<close> and the pathname passed onward is left as it was; if no locale is
  detected, neither pathname nor query is changed by this step. The step is isolated by
  comparing the run with the provider to the run of the same request without one.
\<close>

theorem recordLocale_effect:
  assumes "pathname url = Some p0" and "p0 \<noteq> []" and "i18nProvider this = Some analyze"
  shows "\<exists>s s0. beforeRender d this req url = Inr s \<and>
           beforeRender d (this\<lparr>i18nProvider := None\<rparr>) req url = Inr s0 \<and>
           atTryPathname s = atTryPathname s0 \<and>
           (\<forall>l. detectedLocale (analyze (atTryPathname s0)) = Some l \<and> l \<noteq> [] \<longrightarrow>
                atTryQuery s = (atTryQuery s0)(''__nextLocale'' \<mapsto> QStr l)) \<and>
           (\<not> truthy_str (detectedLocale (analyze (atTryPathname s0))) \<longrightarrow>
                atTryQuery s = atTryQuery s0)"
proof -
  let ?p = "removeTrailingSlash d (fst (resolvePage d this req p0 (query url)))"
  have off: "recordLocale (this\<lparr>i18nProvider := None\<rparr>) ?p (query url) = query url"
    by (simp add: recordLocale_def)
  have det: "recordLocale this ?p (query url) = (query url)(''__nextLocale'' \<mapsto> QStr l)"
    if "detectedLocale (analyze ?p) = Some l" and "l \<noteq> []" for l
    using that assms(3) by (simp add: recordLocale_def)
  have nod: "recordLocale this ?p (query url) = query url"
    if "\<not> truthy_str (detectedLocale (analyze ?p))"
    using that assms(3) by (cases "detectedLocale (analyze ?p)") (simp_all add: recordLocale_def)
  have p': "pathname url = Some p0" by (rule assms(1))
  note on = beforeRender_Inr [OF assms(1,2), of d this req]
  note no = beforeRender_Inr [OF assms(1,2), of d "this\<lparr>i18nProvider := None\<rparr>" req]
  show ?thesis
  proof (cases "isAPIRoute d ?p")
    case True
    show ?thesis
      unfolding on no
      using True
      by (auto simp: resolvePage_no_provider off det nod fun_upd_twist)
  next
    case False
    show ?thesis
      unfolding on no
      using False
      by (auto simp: resolvePage_no_provider off det nod)
  qed
qed

theorem recordLocale_effect_witness:
  "(\<exists>s. beforeRender deps_spec frServer req0 frUrl = Inr s \<and>
        atTryPathname s = ''/fr/about'' \<and>
        atTryQuery s = [''__nextLocale'' \<mapsto> QStr ''fr'']) \<and>
   (\<exists>s. beforeRender deps_spec localeServer req0 aboutUrlPlain = Inr s \<and>
        atTryPathname s = ''/about'' \<and>
        atTryQuery s = Map.empty)"
proof -
  have a: "pathname frUrl = Some ''/fr/about''" and n: "''/fr/about'' \<noteq> []"
    and i: "i18nProvider frServer = Some (analyze_spec [''en'', ''fr''])"
    and b: "pathname aboutUrlPlain = Some ''/about''" and m: "''/about'' \<noteq> []"
    and j: "i18nProvider localeServer = Some (analyze_spec [''en'', ''fr''])"
    by (simp_all add: frUrl_def frServer_def aboutUrlPlain_def localeServer_def)
  from recordLocale_effect [OF a n i, of deps_spec req0]
  have 1: "\<exists>s. beforeRender deps_spec frServer req0 frUrl = Inr s \<and>
        atTryPathname s = ''/fr/about'' \<and>
        atTryQuery s = [''__nextLocale'' \<mapsto> QStr ''fr'']"
    by (simp add: concrete_defs frServer_def frUrl_def analyze_spec_def)
  from recordLocale_effect [OF b m j, of deps_spec req0]
  have 2: "\<exists>s. beforeRender deps_spec localeServer req0 aboutUrlPlain = Inr s \<and>
        atTryPathname s = ''/about'' \<and>
        atTryQuery s = Map.empty"
    by (simp add: concrete_defs localeServer_def aboutUrlPlain_def analyze_spec_def)
  from 1 2 show ?thesis by blast
qed

subsection \<open>Decimal strings and byte lengths\<close>

lemma digit_inj: "a < 10 \<Longrightarrow> b < 10 \<Longrightarrow> digit a = digit b \<Longrightarrow> a = b"
proof -
  assume a: "a < 10" and b: "b < 10" and e: "digit a = digit b"
  from e have "(of_char (digit a) :: nat) = of_char (digit b)" by simp
  then have "(48 + a) mod 256 = (48 + b) mod 256" by (simp add: digit_def)
  with a b show "a = b" by simp
qed

lemma String_of_nonempty: "String_of n \<noteq> []"
  by (subst String_of.simps) simp

lemma String_of_length1: "length (String_of n) = 1 \<longleftrightarrow> n < 10"
  using String_of_nonempty [of "n div 10"]
  by (subst String_of.simps) (auto simp: Suc_le_eq)

lemma String_of_inj: "String_of n = String_of m \<Longrightarrow> n = m"
proof (induction n arbitrary: m rule: String_of.induct)
  case (1 n)
  show ?case
  proof (cases "n < 10")
    case True
    with "1.prems" String_of_length1 [of n] String_of_length1 [of m] have m: "m < 10" by simp
    from "1.prems" True m have "digit n = digit m" by (simp add: String_of.simps)
    with True m show ?thesis by (rule digit_inj)
  next
    case False
    with "1.prems" String_of_length1 [of n] String_of_length1 [of m] have m: "\<not> m < 10" by simp
    from "1.prems" False m
    have e: "String_of (n div 10) @ [digit (n mod 10)] = String_of (m div 10) @ [digit (m mod 10)]"
      by (simp add: String_of.simps)
    then have a: "String_of (n div 10) = String_of (m div 10)" and b: "digit (n mod 10) = digit (m mod 10)"
      by simp_all
    from "1.IH" [OF False a] have "n div 10 = m div 10" .
    moreover from b have "n mod 10 = m mod 10" by (intro digit_inj) simp_all
    ultimately show ?thesis by (metis div_mult_mod_eq)
  qed
qed

lemma utf8Units_pos: "1 \<le> utf8Units u"
  by (simp add: utf8Units_def)

lemma utf8Units_multi: "0x80 \<le> u \<Longrightarrow> 2 \<le> utf8Units u"
  by (simp add: utf8Units_def not_less [symmetric])

lemma byteLength_spec_ge: "length p \<le> byteLength_spec p"
proof (induction p rule: byteLength_spec.induct)
  case 1
  show ?case by simp
next
  case (2 u)
  show ?case using utf8Units_pos [of u] by simp
next
  case (3 u v rest)
  then show ?case using utf8Units_pos [of u] by (auto simp: Suc_le_eq)
qed

lemma byteLength_spec_gt:
  "\<exists>u\<in>set p. 0x80 \<le> u \<Longrightarrow> length p < byteLength_spec p"
proof (induction p rule: byteLength_spec.induct)
  case 1
  then show ?case by simp
next
  case (2 u)
  then show ?case using utf8Units_multi [of u] by simp
next
  case (3 u v rest)
  show ?case
  proof (cases "isHighSurrogate u \<and> isLowSurrogate v")
    case True
    then show ?thesis using byteLength_spec_ge [of rest] by simp
  next
    case False
    then have eq: "byteLength_spec (u # v # rest) = utf8Units u + byteLength_spec (v # rest)"
      by auto
    show ?thesis
    proof (cases "0x80 \<le> u")
      case True
      then show ?thesis
        unfolding eq using utf8Units_multi [of u] byteLength_spec_ge [of "v # rest"] by simp
    next
      case nu: False
      with "3.prems" have "\<exists>w\<in>set (v # rest). 0x80 \<le> w" by auto
      with "3.IH"(2) False have "length (v # rest) < byteLength_spec (v # rest)" by blast
      then show ?thesis unfolding eq using utf8Units_pos [of u] by simp
    qed
  qed
qed


lemma String_of_4: "String_of 4 = ''4''" by code_simp
lemma String_of_5: "String_of 5 = ''5''" by code_simp
lemma bl_cafe: "byteLength_spec cafe = 5"
  by (simp add: cafe_def utf8Units_def isHighSurrogate_def isLowSurrogate_def)


subsection \<open>\<open>sendRenderResult\<close>: the buffered path\<close>

lemma headers_setHeader [simp]:
  "headers (setHeader name v res) = (headers res)(name \<mapsto> v)"
  by (simp add: setHeader_def)

text \<open>
  Claim C5. In the buffered path of \<open>sendRenderResult\<close> (\<open>result.isDynamic\<close> false), for
  every payload, the \<open>Content-Length\<close> header is \<open>String(byteLength(payload))\<close>, the
  \<open>ETag\<close> header is written (as \<open>generateETag(payload)\<close>) when \<open>generateEtags\<close> is true
  and left as it was otherwise, and the payload is the body. With \<open>byteLength\<close> the UTF-8
  length, a payload with a code unit outside ASCII has more bytes than code units, and
  the header is the byte length and not the character count.
\<close>

theorem sendRenderResult_buffered:
  assumes "\<not> isDynamic (result options)"
  shows "headers (sendRenderResult byteLength generateETag res options) ''Content-Length''
           = Some (String_of (byteLength (toUnchunkedString (result options)))) \<and>
         headers (sendRenderResult byteLength generateETag res options) ''ETag''
           = (if generateEtags options then Some (generateETag (toUnchunkedString (result options)))
              else headers res ''ETag'') \<and>
         textBody (sendRenderResult byteLength generateETag res options)
           = Some (toUnchunkedString (result options)) \<and>
         ((\<exists>u\<in>set (toUnchunkedString (result options)). 0x80 \<le> u) \<longrightarrow>
            length (toUnchunkedString (result options))
              < byteLength_spec (toUnchunkedString (result options)) \<and>
            headers (sendRenderResult byteLength_spec generateETag res options) ''Content-Length''
              \<noteq> Some (String_of (length (toUnchunkedString (result options)))))"
proof -
  have cl: "headers (sendRenderResult bl generateETag res options) ''Content-Length''
           = Some (String_of (bl (toUnchunkedString (result options))))" for bl
    using assms by (simp add: sendRenderResult_def Let_def)
  have et: "headers (sendRenderResult byteLength generateETag res options) ''ETag''
           = (if generateEtags options then Some (generateETag (toUnchunkedString (result options)))
              else headers res ''ETag'')"
    using assms by (simp add: sendRenderResult_def Let_def getHeader_def)
  have bd: "textBody (sendRenderResult byteLength generateETag res options)
           = Some (toUnchunkedString (result options))"
    using assms by (simp add: sendRenderResult_def Let_def)
  have mb: "length (toUnchunkedString (result options))
              < byteLength_spec (toUnchunkedString (result options)) \<and>
            headers (sendRenderResult byteLength_spec generateETag res options) ''Content-Length''
              \<noteq> Some (String_of (length (toUnchunkedString (result options))))"
    if "\<exists>u\<in>set (toUnchunkedString (result options)). 0x80 \<le> u"
  proof -
    from that have lt: "length (toUnchunkedString (result options))
              < byteLength_spec (toUnchunkedString (result options))"
      by (rule byteLength_spec_gt)
    then have "String_of (byteLength_spec (toUnchunkedString (result options)))
                 \<noteq> String_of (length (toUnchunkedString (result options)))"
      using String_of_inj by fastforce
    with lt show ?thesis by (simp add: cl)
  qed
  from cl et bd mb show ?thesis by blast
qed

theorem sendRenderResult_buffered_witness:
  "headers (sendRenderResult byteLength_spec etagOf freshResponse cafeHtml) ''Content-Length'' = Some ''5'' \<and>
   headers (sendRenderResult byteLength_spec etagOf freshResponse cafeHtml) ''Content-Length'' \<noteq> Some ''4'' \<and>
   length cafe = 4 \<and>
   headers (sendRenderResult byteLength_spec etagOf freshResponse cafeHtml) ''ETag'' = Some ''W/4'' \<and>
   headers (sendRenderResult byteLength_spec etagOf freshResponse cafeJson) ''ETag'' = None"
proof -
  have d: "\<not> isDynamic (result cafeHtml)" and e: "\<not> isDynamic (result cafeJson)"
    by (simp_all add: cafeHtml_def cafeJson_def cafeResult_def)
  have m: "\<exists>u\<in>set (toUnchunkedString (result cafeHtml)). 0x80 \<le> u"
    by (simp add: cafeHtml_def cafeResult_def cafe_def)
  have p: "toUnchunkedString (result cafeHtml) = cafe" "generateEtags cafeHtml"
    "\<not> generateEtags cafeJson" "length cafe = 4"
    by (simp_all add: cafeHtml_def cafeJson_def cafeResult_def cafe_def)
  from sendRenderResult_buffered [OF d, of byteLength_spec etagOf freshResponse] m
  have 1: "headers (sendRenderResult byteLength_spec etagOf freshResponse cafeHtml) ''Content-Length'' = Some ''5''"
    and 2: "headers (sendRenderResult byteLength_spec etagOf freshResponse cafeHtml) ''Content-Length'' \<noteq> Some ''4''"
    and 3: "headers (sendRenderResult byteLength_spec etagOf freshResponse cafeHtml) ''ETag'' = Some ''W/4''"
    by (simp_all add: p bl_cafe String_of_4 String_of_5 etagOf_def)
  from sendRenderResult_buffered [OF e, of byteLength_spec etagOf freshResponse]
  have 4: "headers (sendRenderResult byteLength_spec etagOf freshResponse cafeJson) ''ETag'' = None"
    by (simp add: p freshResponse_def)
  from 1 2 3 4 p(4) show ?thesis by simp
qed


subsection \<open>\<open>sendRenderResult\<close>: the headers of both paths\<close>

text \<open>
  Claim C6, as stated, says that an already-present \<open>Content-Type\<close> header is never
  overwritten. The guard is \<open>!res.getHeader('Content-Type')\<close>, which also holds for a
  header that is present with the empty string as its value: that header is overwritten.
\<close>

theorem sendRenderResult_content_type_counterexample:
  "headers emptyTypeResponse ''Content-Type'' = Some [] \<and>
   headers (sendRenderResult byteLength_spec etagOf emptyTypeResponse cafeHtml) ''Content-Type''
     = Some ''text/html; charset=utf-8''"
  by (simp add: sendRenderResult_def emptyTypeResponse_def cafeHtml_def cafeResult_def
        getHeader_def Let_def)


text \<open>
  Claim C6, amended. For every call of \<open>sendRenderResult\<close>: \<open>X-Powered-By\<close> is written
  (as \<open>Next.js\<close>) when \<open>poweredByHeader\<close> is true and the type is \<open>html\<close>, and left as
  it was otherwise; a \<open>Content-Type\<close> header already present with a non-empty value is
  never overwritten; otherwise \<open>Content-Type\<close> is set to the declared content type of
  the render result when that is a non-empty string, else to exactly
  \<open>application/json\<close> for the type \<open>json\<close> and exactly \<open>text/html; charset=utf-8\<close>
  for the type \<open>html\<close>.
\<close>

theorem sendRenderResult_headers:
  "headers (sendRenderResult byteLength generateETag res options) ''X-Powered-By''
     = (if poweredByHeader options \<and> kind options = html then Some ''Next.js''
        else headers res ''X-Powered-By'') \<and>
   (truthy_str (headers res ''Content-Type'') \<longrightarrow>
      headers (sendRenderResult byteLength generateETag res options) ''Content-Type''
        = headers res ''Content-Type'') \<and>
   (\<not> truthy_str (headers res ''Content-Type'') \<longrightarrow>
      (\<forall>ct. contentType (result options) = Some ct \<and> ct \<noteq> [] \<longrightarrow>
         headers (sendRenderResult byteLength generateETag res options) ''Content-Type'' = Some ct) \<and>
      (\<not> truthy_str (contentType (result options)) \<and> kind options = json \<longrightarrow>
         headers (sendRenderResult byteLength generateETag res options) ''Content-Type''
           = Some ''application/json'') \<and>
      (\<not> truthy_str (contentType (result options)) \<and> kind options = html \<longrightarrow>
         headers (sendRenderResult byteLength generateETag res options) ''Content-Type''
           = Some ''text/html; charset=utf-8''))"
proof -
  have x: "headers (sendRenderResult byteLength generateETag res options) ''X-Powered-By''
     = (if poweredByHeader options \<and> kind options = html then Some ''Next.js''
        else headers res ''X-Powered-By'')"
    by (auto simp: sendRenderResult_def getHeader_def Let_def)
  have c: "headers (sendRenderResult byteLength generateETag res options) ''Content-Type''
     = (if truthy_str (headers res ''Content-Type'') then headers res ''Content-Type''
        else Some (if truthy_str (contentType (result options))
                   then (case contentType (result options) of Some ct \<Rightarrow> ct | None \<Rightarrow> [])
                   else if kind options = json then ''application/json''
                   else ''text/html; charset=utf-8''))"
    by (simp add: sendRenderResult_def getHeader_def Let_def)
  show ?thesis unfolding c x by auto
qed

theorem sendRenderResult_headers_witness:
  "headers (sendRenderResult byteLength_spec etagOf freshResponse cafeHtml) ''X-Powered-By'' = Some ''Next.js'' \<and>
   headers (sendRenderResult byteLength_spec etagOf freshResponse cafeJson) ''X-Powered-By'' = None \<and>
   headers (sendRenderResult byteLength_spec etagOf plainTypeResponse cafeHtml) ''Content-Type'' = Some ''text/plain'' \<and>
   headers (sendRenderResult byteLength_spec etagOf freshResponse xmlHtml) ''Content-Type'' = Some ''text/xml'' \<and>
   headers (sendRenderResult byteLength_spec etagOf freshResponse cafeJson) ''Content-Type'' = Some ''application/json'' \<and>
   headers (sendRenderResult byteLength_spec etagOf freshResponse cafeHtml) ''Content-Type'' = Some ''text/html; charset=utf-8''"
proof -
  have f: "\<not> truthy_str (headers freshResponse ''Content-Type'')"
    and g: "truthy_str (headers plainTypeResponse ''Content-Type'')"
    and h: "headers plainTypeResponse ''Content-Type'' = Some ''text/plain''"
    and x: "contentType (result xmlHtml) = Some ''text/xml''" "''text/xml'' \<noteq> []"
    and n: "\<not> truthy_str (contentType (result cafeHtml))" "\<not> truthy_str (contentType (result cafeJson))"
    and k: "kind cafeHtml = html" "kind cafeJson = json" "poweredByHeader cafeHtml" "poweredByHeader cafeJson"
    and e: "headers freshResponse ''X-Powered-By'' = None"
    by (simp_all add: freshResponse_def plainTypeResponse_def xmlHtml_def xmlResult_def
          cafeHtml_def cafeJson_def cafeResult_def)
  from sendRenderResult_headers [of byteLength_spec etagOf freshResponse cafeHtml] f n k
  have 1: "headers (sendRenderResult byteLength_spec etagOf freshResponse cafeHtml) ''X-Powered-By'' = Some ''Next.js''"
    and 6: "headers (sendRenderResult byteLength_spec etagOf freshResponse cafeHtml) ''Content-Type'' = Some ''text/html; charset=utf-8''"
    by simp_all
  from sendRenderResult_headers [of byteLength_spec etagOf freshResponse cafeJson] f n k e
  have 2: "headers (sendRenderResult byteLength_spec etagOf freshResponse cafeJson) ''X-Powered-By'' = None"
    and 5: "headers (sendRenderResult byteLength_spec etagOf freshResponse cafeJson) ''Content-Type'' = Some ''application/json''"
    by simp_all
  from sendRenderResult_headers [of byteLength_spec etagOf plainTypeResponse cafeHtml] g h
  have 3: "headers (sendRenderResult byteLength_spec etagOf plainTypeResponse cafeHtml) ''Content-Type'' = Some ''text/plain''"
    by simp
  from sendRenderResult_headers [of byteLength_spec etagOf freshResponse xmlHtml] f x
  have 4: "headers (sendRenderResult byteLength_spec etagOf freshResponse xmlHtml) ''Content-Type'' = Some ''text/xml''"
    by simp
  from 1 2 3 4 5 6 show ?thesis by simp
qed


subsection \<open>\<open>sendRenderResult\<close>: closing the stream\<close>

lemma step_not_settle:
  assumes "\<forall>out. ev \<noteq> Settle out"
  shows "closed (step throws ev w) = closed w \<and> reactions (step throws ev w) = reactions w \<and>
         invoked (step throws ev w) = invoked w \<and>
         onCloseRuns (step throws ev w) = onCloseRuns w \<and>
         (ClosedRejected \<in> set (unhandled (step throws ev w))
            \<longleftrightarrow> ClosedRejected \<in> set (unhandled w))"
  using assms by (cases ev) simp_all

lemma run_not_settle:
  assumes "\<forall>out. Settle out \<notin> set evs"
  shows "closed (run throws evs w) = closed w \<and> reactions (run throws evs w) = reactions w \<and>
         invoked (run throws evs w) = invoked w \<and>
         onCloseRuns (run throws evs w) = onCloseRuns w \<and>
         (ClosedRejected \<in> set (unhandled (run throws evs w))
            \<longleftrightarrow> ClosedRejected \<in> set (unhandled w))"
  using assms
proof (induction evs arbitrary: w)
  case Nil
  show ?case by (simp add: run_def)
next
  case (Cons ev evs)
  from Cons.prems have a: "\<forall>out. ev \<noteq> Settle out" and b: "\<forall>out. Settle out \<notin> set evs" by auto
  from Cons.IH [OF b, of "step throws ev w"] step_not_settle [OF a, of throws w]
  show ?case by (simp add: run_def)
qed

lemma step_settled:
  assumes "closed w = Some out"
  shows "closed (step throws ev w) = Some out \<and>
         invoked (step throws ev w) = invoked w \<and>
         onCloseRuns (step throws ev w) = onCloseRuns w \<and>
         (ClosedRejected \<in> set (unhandled (step throws ev w))
            \<longleftrightarrow> ClosedRejected \<in> set (unhandled w))"
  using assms by (cases ev) simp_all

lemma run_settled:
  assumes "closed w = Some out"
  shows "closed (run throws evs w) = Some out \<and>
         invoked (run throws evs w) = invoked w \<and>
         onCloseRuns (run throws evs w) = onCloseRuns w \<and>
         (ClosedRejected \<in> set (unhandled (run throws evs w))
            \<longleftrightarrow> ClosedRejected \<in> set (unhandled w))"
  using assms
proof (induction evs arbitrary: w)
  case Nil
  then show ?case by (simp add: run_def)
next
  case (Cons ev evs)
  note st = step_settled [OF Cons.prems, of throws ev]
  from st have c: "closed (step throws ev w) = Some out" by simp
  from Cons.IH [OF c] st show ?case by (simp add: run_def)
qed

lemma run_append: "run throws (xs @ ys) w = run throws ys (run throws xs w)"
  by (simp add: run_def)

lemma run_Cons: "run throws (ev # evs) w = run throws evs (step throws ev w)"
  by (simp add: run_def)

lemma settlePending_fields:
  "closed (settlePending out w) = closed w \<and> reactions (settlePending out w) = reactions w \<and>
   innerClose (settlePending out w) = innerClose w \<and> invoked (settlePending out w) = invoked w \<and>
   onCloseRuns (settlePending out w) = onCloseRuns w \<and>
   (ClosedRejected \<in> set (unhandled (settlePending out w))
      \<longleftrightarrow> ClosedRejected \<in> set (unhandled w))"
  by (cases out) (auto simp: settlePending_def split: option.splits bool.splits)

lemma onClose_fields:
  "closed (onClose throws w) = closed w \<and>
   onCloseRuns (onClose throws w) = Suc (onCloseRuns w) \<and>
   invoked (onClose throws w) =
     (case innerClose w of None \<Rightarrow> invoked w | Some cb \<Rightarrow> invoked w @ [cb]) \<and>
   (ClosedRejected \<in> set (unhandled (onClose throws w))
      \<longleftrightarrow> ClosedRejected \<in> set (unhandled w))"
  by (auto simp: onClose_def Let_def split: option.splits)

lemma settle_both_handlers:
  assumes "closed w = None"
    and "reactions w = [\<lparr>onFulfilled = Some OnClose, onRejected = Some OnClose\<rparr>]"
  shows "step throws (Settle out) w = onClose throws (settlePending out (w\<lparr>closed := Some out\<rparr>))"
  using assms settlePending_fields [of out "w\<lparr>closed := Some out\<rparr>"]
  by (cases out) (simp_all add: react_def Let_def)

lemma streamWriter_sendRenderResult:
  assumes "isDynamic (result options)"
  shows "streamWriter (sendRenderResult byteLength generateETag res options) =
     Some \<lparr>innerClose = None,
           reactions = [\<lparr>onFulfilled = Some OnClose, onRejected = Some OnClose\<rparr>],
           closed = None, written = [], pendingWrites = [], closeCalled = False,
           pendingClose = None, onCloseRuns = 0, invoked = [], unhandled = []\<rparr>"
  using assms by (simp add: sendRenderResult_def Let_def setHeader_def)

text \<open>
  A reaction with a fulfilment handler only, as \<open>then(onClose)\<close> would attach, lets the
  rejection of \<open>writer.closed\<close> through: \<open>onClose\<close> does not run and the rejection is
  unhandled.
\<close>

lemma then_without_rejection_handler:
  assumes "closed w = None" and "reactions w = [\<lparr>onFulfilled = Some OnClose, onRejected = None\<rparr>]"
  shows "invoked (step throws (Settle Rejected) w) = invoked w \<and>
         onCloseRuns (step throws (Settle Rejected) w) = onCloseRuns w \<and>
         ClosedRejected \<in> set (unhandled (step throws (Settle Rejected) w))"
  using assms settlePending_fields [of Rejected "w\<lparr>closed := Some Rejected\<rparr>"]
  by (simp add: react_def Let_def)

text \<open>
  The promises of the writes are the pipe's to handle: where it drops them, the write
  it attempts on the cancelled stream is an unhandled rejection, beside the handled one
  of \<open>writer.closed\<close>.
\<close>

lemma cancelledRun_unhandled:
  "unhandled (run neverThrows cancelledRun freshWriter) = [WriteRejected]"
  by (simp add: freshWriter_def run_def cancelledRun_def settlePending_def react_def
        onClose_def neverThrows_def)

text \<open>
  Claim C4, as stated, says that the registered close callback is invoked exactly once
  also when the stream closes gracefully. A pipe that registers its callback, writes,
  deregisters the callback with \<open>off\<close> and then ends leaves \<open>innerClose\<close> undefined by
  the time \<open>writer.closed\<close> is fulfilled: \<open>onClose\<close> runs and invokes nothing.
\<close>

theorem sendRenderResult_close_once_counterexample:
  "streamWriter (sendRenderResult byteLength_spec etagOf freshResponse streamHtml)
     = Some freshWriter \<and>
   closed (run neverThrows gracefulRun freshWriter) = Some Fulfilled \<and>
   invoked (run neverThrows gracefulRun freshWriter) = []"
  by (simp add: sendRenderResult_def Let_def setHeader_def getHeader_def streamHtml_def
        streamResult_def freshResponse_def freshWriter_def run_def gracefulRun_def
        settlePending_def react_def onClose_def neverThrows_def)

text \<open>
  Claim C4, amended. In the streaming path of \<open>sendRenderResult\<close>
  (\<open>result.isDynamic\<close> true), \<open>onClose\<close> is attached to \<open>writer.closed\<close> as the
  fulfilment handler and as the rejection handler, so that whether the stream closes
  gracefully or is cancelled mid-stream, \<open>onClose\<close> runs exactly once, whatever the pipe
  does to the target before and after and whatever is tried on the promise later; it
  invokes the close callback registered at that moment exactly once, and none when the
  pipe has deregistered its callback by then; and the rejected completion future never
  becomes an unhandled rejection.
\<close>

theorem sendRenderResult_close_once:
  assumes "isDynamic (result options)"
  shows "\<exists>w. streamWriter (sendRenderResult byteLength generateETag res options) = Some w \<and>
     reactions w = [\<lparr>onFulfilled = Some OnClose, onRejected = Some OnClose\<rparr>] \<and>
     (\<forall>before out after.
        (\<forall>out'. Settle out' \<notin> set before) \<longrightarrow>
          onCloseRuns (run throws (before @ Settle out # after) w) = 1 \<and>
          invoked (run throws (before @ Settle out # after) w) =
            (case innerClose (run throws before w) of None \<Rightarrow> [] | Some cb \<Rightarrow> [cb]) \<and>
          ClosedRejected \<notin> set (unhandled (run throws (before @ Settle out # after) w)))"
proof -
  let ?w = "\<lparr>innerClose = None,
           reactions = [\<lparr>onFulfilled = Some OnClose, onRejected = Some OnClose\<rparr>],
           closed = None, written = [], pendingWrites = [], closeCalled = False,
           pendingClose = None, onCloseRuns = 0, invoked = [],
           unhandled = []\<rparr> :: 'a writer"
  have main: "onCloseRuns (run throws (before @ Settle out # after) ?w) = 1 \<and>
          invoked (run throws (before @ Settle out # after) ?w) =
            (case innerClose (run throws before ?w) of None \<Rightarrow> [] | Some cb \<Rightarrow> [cb]) \<and>
          ClosedRejected \<notin> set (unhandled (run throws (before @ Settle out # after) ?w))"
    if ns: "\<forall>out'. Settle out' \<notin> set before" for before out after
  proof -
    let ?b = "run throws before ?w"
    from run_not_settle [OF ns, of throws ?w]
    have c: "closed ?b = None"
      and r: "reactions ?b = [\<lparr>onFulfilled = Some OnClose, onRejected = Some OnClose\<rparr>]"
      and i: "invoked ?b = []" and n: "onCloseRuns ?b = 0"
      and u: "ClosedRejected \<notin> set (unhandled ?b)"
      by simp_all
    let ?p = "settlePending out (?b\<lparr>closed := Some out\<rparr>)"
    let ?s = "step throws (Settle out) ?b"
    have s: "?s = onClose throws ?p"
      by (rule settle_both_handlers [OF c r])
    from settlePending_fields [of out "?b\<lparr>closed := Some out\<rparr>"] i n u
    have pc: "closed ?p = Some out" and pi: "invoked ?p = []" and pn: "onCloseRuns ?p = 0"
      and pu: "ClosedRejected \<notin> set (unhandled ?p)" and pic: "innerClose ?p = innerClose ?b"
      by simp_all
    from onClose_fields [of throws ?p] pc pi pn pu pic
    have sc: "closed ?s = Some out" and sn: "onCloseRuns ?s = 1"
      and si: "invoked ?s = (case innerClose ?b of None \<Rightarrow> [] | Some cb \<Rightarrow> [cb])"
      and su: "ClosedRejected \<notin> set (unhandled ?s)"
      unfolding s by (simp_all split: option.splits)
    have e: "run throws (before @ Settle out # after) ?w = run throws after ?s"
      by (simp add: run_append run_Cons)
    from run_settled [OF sc, of throws after] sn si su
    show ?thesis unfolding e by simp
  qed
  show ?thesis
    unfolding streamWriter_sendRenderResult [OF assms]
    using main by simp
qed

theorem sendRenderResult_close_once_witness:
  "streamWriter (sendRenderResult byteLength_spec etagOf freshResponse streamHtml)
     = Some freshWriter \<and>
   onCloseRuns (run neverThrows cancelledRun freshWriter) = 1 \<and>
   invoked (run neverThrows cancelledRun freshWriter) = [7] \<and>
   ClosedRejected \<notin> set (unhandled (run neverThrows cancelledRun freshWriter)) \<and>
   onCloseRuns (run neverThrows gracefulRun freshWriter) = 1 \<and>
   ClosedRejected \<notin> set (unhandled (run neverThrows gracefulRun freshWriter))"
proof -
  have d: "isDynamic (result streamHtml)" by (simp add: streamHtml_def streamResult_def)
  have w: "streamWriter (sendRenderResult byteLength_spec etagOf freshResponse streamHtml)
             = Some freshWriter"
    by (simp add: streamWriter_sendRenderResult [OF d] freshWriter_def)
  have b1: "\<forall>out'. Settle out' \<notin>
               set [TargetOn (7::nat), TargetWrite [104, 105] False, Flushed]"
    and b2: "\<forall>out'. Settle out' \<notin>
               set [TargetOn (7::nat), TargetWrite [104, 105] False, TargetOff, TargetEnd False]"
    by simp_all
  have i1: "innerClose
              (run neverThrows [TargetOn 7, TargetWrite [104, 105] False, Flushed] freshWriter)
              = Some 7"
    by (simp add: run_def freshWriter_def)
  from sendRenderResult_close_once [OF d, of byteLength_spec etagOf freshResponse neverThrows] w
  have t: "\<And>before out after. \<forall>out'. Settle out' \<notin> set before \<Longrightarrow>
          onCloseRuns (run neverThrows (before @ Settle out # after) freshWriter) = 1 \<and>
          invoked (run neverThrows (before @ Settle out # after) freshWriter) =
            (case innerClose (run neverThrows before freshWriter) of
               None \<Rightarrow> [] | Some cb \<Rightarrow> [cb]) \<and>
          ClosedRejected \<notin>
            set (unhandled (run neverThrows (before @ Settle out # after) freshWriter))"
    by simp
  from t [OF b1, of Rejected "[TargetWrite [33] False, TargetOff]"] i1
  have 1: "onCloseRuns (run neverThrows cancelledRun freshWriter) = 1 \<and>
           invoked (run neverThrows cancelledRun freshWriter) = [7] \<and>
           ClosedRejected \<notin> set (unhandled (run neverThrows cancelledRun freshWriter))"
    by (simp add: cancelledRun_def)
  from t [OF b2, of Fulfilled "[]"]
  have 2: "onCloseRuns (run neverThrows gracefulRun freshWriter) = 1 \<and>
           ClosedRejected \<notin> set (unhandled (run neverThrows gracefulRun freshWriter))"
    by (simp add: gracefulRun_def)
  from w 1 2 show ?thesis by simp
qed


end
